theory Spec2Isabelle
  imports Main
begin

section \<open>JavaScript values and objects\<close>

text \<open>
  The builders pass around plain JavaScript objects (the credentials bundle, the replies of
  the local authentication helpers, the answers of the prompt library) whose fields may be
  strings, \<open>undefined\<close> (an unset environment variable, a missing field) or nested
  payloads. Values are modelled by \<open>jsval\<close>; numbers are restricted to integers and
  strings to 8-bit characters. An object is an association list in insertion order, the
  order in which \<open>Object.keys\<close> enumerates string keys.
\<close>

datatype jsval =
    JUndefined
  | JNull
  | JBool bool
  | JNum int
  | JStr string
  | JArr "jsval list"
  | JObj "(string \<times> jsval) list"

type_synonym obj = "(string \<times> jsval) list"

definition obj_keys :: "obj \<Rightarrow> string list" where
  "obj_keys ob = map fst ob"

definition obj_get :: "obj \<Rightarrow> string \<Rightarrow> jsval" where
  "obj_get ob k = (case map_of ob k of None \<Rightarrow> JUndefined | Some v \<Rightarrow> v)"

fun obj_set :: "obj \<Rightarrow> string \<Rightarrow> jsval \<Rightarrow> obj" where
  "obj_set [] k v = [(k, v)]"
| "obj_set ((k', v') # ob) k v =
     (if k' = k then (k, v) # ob else (k', v') # obj_set ob k v)"

definition obj_delete :: "obj \<Rightarrow> string \<Rightarrow> obj" where
  "obj_delete ob k = filter (\<lambda>p. fst p \<noteq> k) ob"

text \<open>\<open>Object.assign(target, source)\<close>: every own key of the source is written to the target.\<close>

definition obj_assign :: "obj \<Rightarrow> obj \<Rightarrow> obj" where
  "obj_assign target source = foldl (\<lambda>t p. obj_set t (fst p) (snd p)) target source"

text \<open>JavaScript truthiness, as tested by \<open>!x\<close>, \<open>x || y\<close> and \<open>if (x)\<close>.\<close>

fun truthy :: "jsval \<Rightarrow> bool" where
  "truthy JUndefined = False"
| "truthy JNull = False"
| "truthy (JBool b) = b"
| "truthy (JNum n) = (n \<noteq> 0)"
| "truthy (JStr s) = (s \<noteq> [])"
| "truthy (JArr xs) = True"
| "truthy (JObj ob) = True"

text \<open>\<open>typeof v === 'string'\<close>.\<close>

fun isString :: "jsval \<Rightarrow> bool" where
  "isString (JStr s) = True"
| "isString v = False"

text \<open>\<open>process.env.NAME\<close>: the variable's string, or \<open>undefined\<close> when it is not set.\<close>

definition env_get :: "(string \<Rightarrow> string option) \<Rightarrow> string \<Rightarrow> jsval" where
  "env_get env name = (case env name of None \<Rightarrow> JUndefined | Some s \<Rightarrow> JStr s)"

subsection \<open>\<open>JSON.stringify\<close>\<close>

definition digit_char :: "nat \<Rightarrow> char" where
  "digit_char n = ''0123456789abcdef'' ! (n mod 16)"

function show_nat :: "nat \<Rightarrow> string" where
  "show_nat n = (if n < 10 then [digit_char n] else show_nat (n div 10) @ [digit_char (n mod 10)])"
  by pat_completeness auto
termination
  by (relation "measure id") auto

definition show_int :: "int \<Rightarrow> string" where
  "show_int i = (if i < 0 then CHR ''-'' # show_nat (nat (- i)) else show_nat (nat i))"

definition escape_char :: "char \<Rightarrow> string" where
  "escape_char c =
     (if c = CHR 0x22 then [CHR 0x5C, CHR 0x22]
      else if c = CHR 0x5C then [CHR 0x5C, CHR 0x5C]
      else if c = CHR 0x08 then [CHR 0x5C, CHR ''b'']
      else if c = CHR 0x0C then [CHR 0x5C, CHR ''f'']
      else if c = CHR 0x0A then [CHR 0x5C, CHR ''n'']
      else if c = CHR 0x0D then [CHR 0x5C, CHR ''r'']
      else if c = CHR 0x09 then [CHR 0x5C, CHR ''t'']
      else if (of_char c :: nat) < 32
        then [CHR 0x5C, CHR ''u'', CHR ''0'', CHR ''0'',
              digit_char (of_char c div 16), digit_char (of_char c mod 16)]
      else [c])"

definition quote :: "string \<Rightarrow> string" where
  "quote s = CHR 0x22 # concat (map escape_char s) @ [CHR 0x22]"

fun join :: "string \<Rightarrow> string list \<Rightarrow> string" where
  "join sep [] = []"
| "join sep [x] = x"
| "join sep (x # y # ys) = x @ sep @ join sep (y # ys)"

text \<open>
  The text of a value that has one. Inside an array \<open>undefined\<close> is written \<open>null\<close>;
  inside an object a field whose value is \<open>undefined\<close> is left out.
\<close>

fun json_text :: "jsval \<Rightarrow> string" where
  "json_text JUndefined = ''null''"
| "json_text JNull = ''null''"
| "json_text (JBool b) = (if b then ''true'' else ''false'')"
| "json_text (JNum n) = show_int n"
| "json_text (JStr s) = quote s"
| "json_text (JArr xs) = ''['' @ join '','' (map json_text xs) @ '']''"
| "json_text (JObj ob) =
     ''{'' @ join '',''
        (map (\<lambda>p. quote (fst p) @ '':'' @ json_text (snd p))
             (filter (\<lambda>p. snd p \<noteq> JUndefined) ob)) @ ''}''"

text \<open>
  \<open>JSON.stringify(v)\<close> returns a string for every value that has a JSON text, and returns
  \<open>undefined\<close> (not a string) when \<open>v\<close> is \<open>undefined\<close>.
\<close>

fun JSON_stringify :: "jsval \<Rightarrow> jsval" where
  "JSON_stringify JUndefined = JUndefined"
| "JSON_stringify v = JStr (json_text v)"

section \<open>Effects: traces and exceptions\<close>

record credentialMetadata =
  md_username :: string
  md_experienceName :: string
  md_bundleIdentifier :: jsval
  md_platform :: string

text \<open>The helpers of the local authentication module \<open>./auth\<close> that the iOS builder calls.\<close>

datatype authcall =
    DoFastlaneActionsExist
  | PrepareLocalAuth
  | ValidateCredentialsProduceTeamId
  | EnsureAppIdLocally
  | CreateAppOnPortal
  | ProduceCerts
  | ProducePushCerts
  | ProduceProvisionProfile

datatype level = Info | Warn | Error

text \<open>
  Everything a run does to the outside world, in order: calls of the build service
  (\<open>xdl\<close>), calls of the local authentication helpers, questions put to the operator,
  file reads and log lines.
\<close>

datatype event =
    GetPublishInfo
  | CheckStatus
  | CredentialsExist credentialMetadata
  | RemoveCredentials string credentialMetadata
  | UpdateCredentials string obj credentialMetadata
  | ValidateCredentials string string "obj option" credentialMetadata
  | FetchAppleCertificates credentialMetadata
  | FetchPushCertificates credentialMetadata
  | EnsureAppId credentialMetadata
  | Auth authcall
  | Prompt string
  | ReadFile jsval
  | StatFile jsval
  | Log level string
  | ConsoleLog jsval
  | Publish
  | EnsureReleaseExists string
  | Build string

datatype err =
    INVALID_OPTIONS
  | CREDENTIAL_ERROR
  | ReasonDump jsval jsval
  | UnknownChoice string
  | TypeError string
  | FileError jsval
  | ServiceRejected string

text \<open>
  An action yields the events it caused and either the exception it threw (\<open>Inl\<close>) or its
  value (\<open>Inr\<close>). \<open>bnd\<close> is \<open>await\<close>-sequencing: an exception ends the sequence.
\<close>

type_synonym 'a act = "event list \<times> (err + 'a)"

definition ret :: "'a \<Rightarrow> 'a act" where
  "ret x = ([], Inr x)"

definition throw :: "err \<Rightarrow> 'a act" where
  "throw e = ([], Inl e)"

definition emit :: "event \<Rightarrow> unit act" where
  "emit ev = ([ev], Inr ())"

definition bnd :: "'a act \<Rightarrow> ('a \<Rightarrow> 'b act) \<Rightarrow> 'b act" where
  "bnd m f =
     (case snd m of
        Inl e \<Rightarrow> (fst m, Inl e)
      | Inr x \<Rightarrow> (fst m @ fst (f x), snd (f x)))"

text \<open>\<open>try { m } catch (e) { h(e) }\<close>.\<close>

definition catch :: "'a act \<Rightarrow> (err \<Rightarrow> 'a act) \<Rightarrow> 'a act" where
  "catch m h =
     (case snd m of
        Inl e \<Rightarrow> (fst m @ fst (h e), snd (h e))
      | Inr x \<Rightarrow> m)"

text \<open>
  \<open>(await fs.readFile(p)).toString('base64')\<close>. The file system is a table from the
  paths of readable files to the base64 text of their contents; a path that is not a
  string (an unset environment variable) or names no readable file rejects.
\<close>

definition readFileBase64 :: "(string \<Rightarrow> string option) \<Rightarrow> jsval \<Rightarrow> jsval act" where
  "readFileBase64 files p =
     bnd (emit (ReadFile p)) (\<lambda>_.
       case p of
         JStr s \<Rightarrow> (case files s of None \<Rightarrow> throw (FileError p) | Some b \<Rightarrow> ret (JStr b))
       | _ \<Rightarrow> throw (TypeError ''path must be a string or Buffer''))"

section \<open>The iOS builder (\<open>src/commands/build/IOSBuilder.js\<close>, first version in the file)\<close>

subsection \<open>Inputs of a run\<close>

text \<open>The \<open>args\<close> of \<open>Exp.getPublishInfoAsync(projectDir)\<close>.\<close>

record publishInfo =
  username :: string
  remotePackageName :: string
  remoteFullPackageName :: string
  bundleIdentifierIOS :: jsval

text \<open>\<open>this.options\<close>; \<open>opt_type\<close> is \<open>options.type\<close> (\<open>'simulator'\<close> for a simulator build).\<close>

record options =
  clearCredentials :: bool
  useCi :: bool
  opt_type :: jsval

text \<open>
  The module \<open>./auth\<close> is not part of the sources: its constants and the replies of its
  helpers are parameters of the model. A reply is an object with a \<open>result\<close> field and,
  on failure, \<open>reason\<close> and \<open>rawDump\<close>.
\<close>

record authFuncs =
  DEBUG :: bool
  NO_BUNDLE_ID :: string
  MULTIPLE_PROFILES :: string
  doFastlaneActionsExist_reply :: jsval
  validateCredentialsProduceTeamId_reply :: obj
  ensureAppIdLocally_reply :: obj
  createAppOnPortal_reply :: obj
  produceCerts_reply :: obj
  producePushCerts_reply :: obj
  produceProvisionProfile_reply :: obj

text \<open>
  The operator's accepted answers to the questions of this builder (after the prompt
  library has applied each question's \<open>validate\<close> and \<open>filter\<close>). \<open>True\<close> for
  \<open>ans_distCert\<close> and \<open>ans_pushCert\<close> is the choice ``Let Expo handle the process''.
\<close>

record operator =
  ans_isExpoManaged :: bool
  ans_distCert :: bool
  ans_pushCert :: bool
  ans_appleId :: string
  ans_password :: string
  ans_dist_pathToP12 :: string
  ans_dist_p12Password :: string
  ans_push_pathToP12 :: string
  ans_push_p12Password :: string
  ans_pathToProvisioningProfile :: string

text \<open>
  One run's surroundings: project metadata, options, the process environment, the readable
  files, the bundle the build service has stored for the identity (\<open>None\<close> when
  \<open>credentialsExistForPlatformAsync\<close> finds nothing), the authentication helpers and the
  operator. The builders of the older per-field flow (second \<open>IOSBuilder\<close>, \<open>AndroidBuilder\<close>)
  read the operator's answer to a question from \<open>answer method name\<close>, and get from
  \<open>validate_ok kind\<close> and \<open>ensureAppId_ok\<close> whether the service's validation and
  app-id calls resolve or reject, and from \<open>update_ok\<close> whether
  \<open>updateCredentialsForPlatform\<close> resolves or rejects (every builder awaits it, none
  catches its rejection). \<open>localKeystoreExists\<close> is \<open>fs.existsSync\<close> on the project's
  \<open>.jks\<close> file. The other service calls (\<open>checkStatus\<close>, the lookup and the removal of
  the stored bundle, publish, build) are events that resolve.
\<close>

record world =
  info :: publishInfo
  opts :: options
  env :: "string \<Rightarrow> string option"
  files :: "string \<Rightarrow> string option"
  stored :: "obj option"
  auth :: authFuncs
  oper :: operator
  answer :: "string \<Rightarrow> string \<Rightarrow> jsval"
  validate_ok :: "string \<Rightarrow> bool"
  ensureAppId_ok :: bool
  update_ok :: bool
  localKeystoreExists :: bool

subsection \<open>The builder's methods\<close>

text \<open>
  \<open>await Credentials.updateCredentialsForPlatform(platform, credentials, metadata)\<close>: the
  call is issued, and then resolves or rejects.
\<close>

definition updateCredentialsForPlatform ::
  "world \<Rightarrow> string \<Rightarrow> obj \<Rightarrow> credentialMetadata \<Rightarrow> unit act" where
  "updateCredentialsForPlatform w platform credentials md =
     bnd (emit (UpdateCredentials platform credentials md)) (\<lambda>_.
       if update_ok w then ret ()
       else throw (ServiceRejected ''updateCredentialsForPlatform''))"

definition OBLIGATORY_CREDS_KEYS :: "string list" where
  "OBLIGATORY_CREDS_KEYS =
     [''certP12'', ''certPassword'', ''pushP12'', ''pushPassword'',
      ''provisioningProfile'', ''teamId'']"

definition copyOverAsString :: "obj \<Rightarrow> obj \<Rightarrow> obj" where
  "copyOverAsString credsStarter authActionAttempt =
     foldl (\<lambda>c k.
              if isString (obj_get authActionAttempt k)
              then obj_set c k (obj_get authActionAttempt k)
              else obj_set c k (JSON_stringify (obj_get authActionAttempt k)))
           credsStarter (obj_keys authActionAttempt)"

text \<open>
  \<open>_areCredsMissing(creds, action)\<close> collects the obligatory keys that are not own keys of
  \<open>creds\<close>, calls \<open>action\<close> once for each of them, and logs a warning when there is one.
  The only action passed in the source clears the flag \<open>clientHasAllNeededCreds\<close>; the
  model returns the list of missing keys and the caller clears the flag when it is not
  empty.
\<close>

definition credsMissing :: "obj \<Rightarrow> string list" where
  "credsMissing creds = filter (\<lambda>k. k \<notin> set (obj_keys creds)) OBLIGATORY_CREDS_KEYS"

definition areCredsMissing :: "obj \<Rightarrow> string list act" where
  "areCredsMissing creds =
     bnd (if credsMissing creds \<noteq> []
          then emit (Log Warn (''We do not have some credentials for you, ''
                               @ join '','' (credsMissing creds)))
          else ret ())
       (\<lambda>_. ret (credsMissing creds))"

definition throwIfFailureWithReasonDump :: "authFuncs \<Rightarrow> obj \<Rightarrow> unit act" where
  "throwIfFailureWithReasonDump au replyAttempt =
     bnd (if DEBUG au then emit (ConsoleLog (JObj replyAttempt)) else ret ()) (\<lambda>_.
       if obj_get replyAttempt ''result'' = JStr ''failure''
       then throw (ReasonDump (obj_get replyAttempt ''reason'') (obj_get replyAttempt ''rawDump''))
       else ret ())"

text \<open>\<open>v.startsWith(p)\<close>: a \<open>TypeError\<close> when \<open>v\<close> is not a string.\<close>

definition startsWith :: "jsval \<Rightarrow> string \<Rightarrow> bool act" where
  "startsWith v p =
     (case v of
        JStr s \<Rightarrow> ret (take (length p) s = p)
      | _ \<Rightarrow> throw (TypeError ''startsWith is not a function''))"

text \<open>\<open>reply.result === 'failure' && reply.reason.startsWith(p)\<close>.\<close>

definition failedWithReason :: "obj \<Rightarrow> string \<Rightarrow> bool act" where
  "failedWithReason reply p =
     (if obj_get reply ''result'' = JStr ''failure''
      then startsWith (obj_get reply ''reason'') p
      else ret False)"

definition runningAsCI :: "world \<Rightarrow> obj \<Rightarrow> obj act" where
  "runningAsCI w credsStarter =
     (let creds =
            [(''teamId'', env_get (env w) ''EXP_APPLE_TEAM_ID''),
             (''certP12'', env_get (env w) ''EXP_DIST_CERTIFICATE_PATH''),
             (''certPassword'', env_get (env w) ''EXP_DIST_CERTIFICATE_PASSWORD''),
             (''pushP12'', env_get (env w) ''EXP_PUSH_CERTIFICATE_PATH''),
             (''pushPassword'', env_get (env w) ''EXP_PUSH_CERTIFICATE_PASSWORD''),
             (''provisioningProfile'', env_get (env w) ''EXP_PROVIONING_PROFILE_PATH'')]
      in bnd (readFileBase64 (files w) (obj_get creds ''provisioningProfile'')) (\<lambda>profile.
         bnd (readFileBase64 (files w) (obj_get creds ''certP12'')) (\<lambda>cert.
         bnd (readFileBase64 (files w) (obj_get creds ''pushP12'')) (\<lambda>push.
         ret (copyOverAsString credsStarter
                (obj_set (obj_set (obj_set creds ''provisioningProfile'' profile)
                            ''certP12'' cert) ''pushP12'' push))))))"

definition userProvidedOverride :: "world \<Rightarrow> obj \<Rightarrow> string \<Rightarrow> obj act" where
  "userProvidedOverride w credsStarter choice =
     (if choice = ''distCert'' then
        bnd (emit (Log Info ''Please provide your distribution certificate P12:'')) (\<lambda>_.
        bnd (emit (Prompt ''pathToP12'')) (\<lambda>_.
        bnd (emit (Prompt ''p12Password'')) (\<lambda>_.
        bnd (readFileBase64 (files w) (JStr (ans_dist_pathToP12 (oper w)))) (\<lambda>p12.
        ret (copyOverAsString credsStarter
               [(''certP12'', p12),
                (''certPassword'', JStr (ans_dist_p12Password (oper w)))])))))
      else if choice = ''pushCert'' then
        bnd (emit (Log Info ''Please provide the path to your push notification cert P12'')) (\<lambda>_.
        bnd (emit (Prompt ''pathToP12'')) (\<lambda>_.
        bnd (emit (Prompt ''p12Password'')) (\<lambda>_.
        bnd (readFileBase64 (files w) (JStr (ans_push_pathToP12 (oper w)))) (\<lambda>p12.
        ret (copyOverAsString credsStarter
               [(''pushP12'', p12),
                (''pushPassword'', JStr (ans_push_p12Password (oper w)))])))))
      else if choice = ''provisioningProfile'' then
        bnd (emit (Log Info ''Please provide the path to your .mobile provisioning profile'')) (\<lambda>_.
        bnd (emit (Prompt ''pathToProvisioningProfile'')) (\<lambda>_.
        bnd (readFileBase64 (files w) (JStr (ans_pathToProvisioningProfile (oper w)))) (\<lambda>profile.
        ret (copyOverAsString credsStarter [(''provisioningProfile'', profile)]))))
      else throw (UnknownChoice choice))"

fun forChoices :: "(obj \<Rightarrow> 'c \<Rightarrow> obj act) \<Rightarrow> obj \<Rightarrow> 'c list \<Rightarrow> obj act" where
  "forChoices body credsStarter [] = ret credsStarter"
| "forChoices body credsStarter (c # cs) =
     bnd (body credsStarter c) (\<lambda>credsStarter'. forChoices body credsStarter' cs)"

definition runningAsExpert :: "world \<Rightarrow> obj \<Rightarrow> obj act" where
  "runningAsExpert w credsStarter =
     bnd (emit (Log Info ''WARNING! In this mode, we won't be able to make sure your certificates'')) (\<lambda>_.
     forChoices (userProvidedOverride w) credsStarter
       [''distCert'', ''pushCert'', ''provisioningProfile''])"

definition ensureAppExists :: "world \<Rightarrow> obj \<Rightarrow> obj act" where
  "ensureAppExists w credsStarter =
     bnd (emit (Auth EnsureAppIdLocally)) (\<lambda>_.
     bnd (failedWithReason (ensureAppIdLocally_reply (auth w)) (NO_BUNDLE_ID (auth w))) (\<lambda>noBundleId.
     bnd (if noBundleId
          then bnd (emit (Auth CreateAppOnPortal)) (\<lambda>_. ret (createAppOnPortal_reply (auth w)))
          else ret (ensureAppIdLocally_reply (auth w))) (\<lambda>checkAppExistenceAttempt.
     bnd (throwIfFailureWithReasonDump (auth w) checkAppExistenceAttempt) (\<lambda>_.
     ret (copyOverAsString credsStarter checkAppExistenceAttempt)))))"

definition removeProfileHint :: string where
  "removeProfileHint =
     ''Consider logging into https://developer.apple.com and removing the existing provisioning profile''"

definition produceProvisionProfile :: "world \<Rightarrow> obj \<Rightarrow> obj act" where
  "produceProvisionProfile w credsStarter =
     bnd (emit (Auth ProduceProvisionProfile)) (\<lambda>_.
     bnd (failedWithReason (produceProvisionProfile_reply (auth w)) (MULTIPLE_PROFILES (auth w))) (\<lambda>multiple.
     bnd (if multiple
          then emit (Log Warn removeProfileHint)
          else ret ()) (\<lambda>_.
     bnd (throwIfFailureWithReasonDump (auth w) (produceProvisionProfile_reply (auth w))) (\<lambda>_.
     ret (copyOverAsString credsStarter (produceProvisionProfile_reply (auth w)))))))"

definition expoManagedResource :: "world \<Rightarrow> obj \<Rightarrow> string \<Rightarrow> obj act" where
  "expoManagedResource w credsStarter choice =
     (if choice = ''distCert'' then
        bnd (emit (Auth ProduceCerts)) (\<lambda>_.
        bnd (throwIfFailureWithReasonDump (auth w) (produceCerts_reply (auth w))) (\<lambda>_.
        ret (copyOverAsString credsStarter (produceCerts_reply (auth w)))))
      else if choice = ''pushCert'' then
        bnd (emit (Auth ProducePushCerts)) (\<lambda>_.
        bnd (throwIfFailureWithReasonDump (auth w) (producePushCerts_reply (auth w))) (\<lambda>_.
        ret (copyOverAsString credsStarter (producePushCerts_reply (auth w)))))
      else if choice = ''provisioningProfile'' then
        produceProvisionProfile w credsStarter
      else throw (UnknownChoice choice))"

definition askForAppleCreds :: "world \<Rightarrow> bool \<Rightarrow> obj act" where
  "askForAppleCreds w justTeamId =
     bnd (emit (ConsoleLog (JStr (if justTeamId
            then ''We need your Apple ID/password to ensure the correct teamID and appID''
            else ''We need your Apple ID/password to manage certificates and provisioning profiles'')))) (\<lambda>_.
     bnd (emit (Prompt ''appleId'')) (\<lambda>_.
     bnd (emit (Prompt ''password'')) (\<lambda>_.
     ret [(''appleId'', JStr (ans_appleId (oper w))),
          (''password'', JStr (ans_password (oper w)))])))"

text \<open>
  \<open>_validateCredsEnsureAppExists\<close> mutates \<open>credsStarter\<close> and returns the Apple
  credentials; the model returns the mutated object. The Apple credentials only travel on
  to the authentication helpers, whose replies are given by \<open>authFuncs\<close>.
\<close>

definition validateCredsEnsureAppExists :: "world \<Rightarrow> obj \<Rightarrow> bool \<Rightarrow> obj act" where
  "validateCredsEnsureAppExists w credsStarter justTeamId =
     bnd (askForAppleCreds w justTeamId) (\<lambda>appleCredentials.
     bnd (emit (Log Info ''Validating Credentials...'')) (\<lambda>_.
     bnd (emit (Auth ValidateCredentialsProduceTeamId)) (\<lambda>_.
     bnd (throwIfFailureWithReasonDump (auth w) (validateCredentialsProduceTeamId_reply (auth w))) (\<lambda>_.
     ensureAppExists w
       (obj_set credsStarter ''teamId''
          (obj_get (validateCredentialsProduceTeamId_reply (auth w)) ''teamId''))))))"

text \<open>
  \<open>runningAsExpoManaged\<close> asks the two \<open>whatToOverride\<close> questions, adds
  \<open>provisioningProfile: true\<close>, and walks the three choices in key order. The progress
  spinner is display only and left out.
\<close>

definition runningAsExpoManaged :: "world \<Rightarrow> obj \<Rightarrow> obj act" where
  "runningAsExpoManaged w credsStarter =
     bnd (emit (Prompt ''distCert'')) (\<lambda>_.
     bnd (emit (Prompt ''pushCert'')) (\<lambda>_.
     forChoices
       (\<lambda>c choice. if snd choice then expoManagedResource w c (fst choice)
                    else userProvidedOverride w c (fst choice))
       credsStarter
       [(''distCert'', ans_distCert (oper w)),
        (''pushCert'', ans_pushCert (oper w)),
        (''provisioningProfile'', True)]))"

definition savedMessage :: string where
  "savedMessage = ''Encrypted '' @ join '','' OBLIGATORY_CREDS_KEYS @ '' and saved to expo servers''"

definition iosMetadata :: "world \<Rightarrow> credentialMetadata" where
  "iosMetadata w =
     \<lparr> md_username = username (info w),
       md_experienceName = remoteFullPackageName (info w),
       md_bundleIdentifier = bundleIdentifierIOS (info w),
       md_platform = ''ios'' \<rparr>"

definition runLocalAuth :: "world \<Rightarrow> credentialMetadata \<Rightarrow> unit act" where
  "runLocalAuth w credsMetadata =
     bnd (emit (CredentialsExist credsMetadata)) (\<lambda>_.
     bnd (case stored w of
            Some found \<Rightarrow> bnd (areCredsMissing found) (\<lambda>missing. ret (found, missing = []))
          | None \<Rightarrow> ret ([], False)) (\<lambda>(credsStarter, clientHasAllNeededCreds).
     if useCi (opts w) then
       bnd (runningAsCI w credsStarter) (\<lambda>credsStarter'.
       bnd (areCredsMissing credsStarter') (\<lambda>_.
       bnd (updateCredentialsForPlatform w ''ios'' credsStarter' credsMetadata) (\<lambda>_.
       emit (Log Warn savedMessage))))
     else if \<not> clientHasAllNeededCreds then
       bnd (emit (Prompt ''isExpoManaged'')) (\<lambda>_.
       bnd (validateCredsEnsureAppExists w credsStarter (\<not> ans_isExpoManaged (oper w))) (\<lambda>credsStarter'.
       bnd (if ans_isExpoManaged (oper w)
            then runningAsExpoManaged w credsStarter'
            else runningAsExpert w credsStarter') (\<lambda>credsStarter''.
       bnd (if DEBUG (auth w) then emit (ConsoleLog (JObj credsStarter'')) else ret ()) (\<lambda>_.
       bnd (areCredsMissing (obj_delete credsStarter'' ''result'')) (\<lambda>_.
       bnd (updateCredentialsForPlatform w ''ios'' (obj_delete credsStarter'' ''result'') credsMetadata) (\<lambda>_.
       emit (Log Warn savedMessage)))))))
     else emit (Log Info ''Using existing credentials for this build'')))"

definition IOSBuilder_run :: "world \<Rightarrow> unit act" where
  "IOSBuilder_run w =
     bnd (emit GetPublishInfo) (\<lambda>_.
     if \<not> truthy (bundleIdentifierIOS (info w)) then throw INVALID_OPTIONS
     else
       bnd (emit CheckStatus) (\<lambda>_.
       let credentialMetadata =
             iosMetadata w
       in
       bnd (if clearCredentials (opts w)
            then bnd (emit (RemoveCredentials ''ios'' credentialMetadata)) (\<lambda>_.
                 emit (Log Warn ''Removed existing credentials''))
            else ret ()) (\<lambda>_.
       bnd (if opt_type (opts w) \<noteq> JStr ''simulator''
            then catch
                   (bnd (if DEBUG (auth w)
                         then bnd (emit (Auth DoFastlaneActionsExist)) (\<lambda>_.
                              emit (ConsoleLog (doFastlaneActionsExist_reply (auth w))))
                         else ret ()) (\<lambda>_.
                    bnd (emit (Auth PrepareLocalAuth)) (\<lambda>_.
                    runLocalAuth w credentialMetadata)))
                   (\<lambda>e.
                    bnd (emit (Log Error ''Error while gathering & validating credentials'')) (\<lambda>_.
                    bnd (if DEBUG (auth w) then emit (Log Error ''[debug] dump of the error'') else ret ()) (\<lambda>_.
                    throw e)))
            else ret ()) (\<lambda>_.
       bnd (emit (EnsureReleaseExists ''ios'')) (\<lambda>_.
       emit (Build ''ios''))))))"

section \<open>The per-field builders\<close>

subsection \<open>Questions with a \<open>when\<close> predicate\<close>

text \<open>
  Blank \<open>console.log('')\<close> lines are left out of the traces.
  \<open>inquirer.prompt(questions)\<close> walks the questions in order; a question is put to the
  operator only if its \<open>when\<close> predicate returns true, and its answer is then stored
  under the question's name. The predicates of these builders log, and delete keys of the
  shared \<open>environmentAnswers\<close> object, so a predicate returns its verdict together with
  the updated object.
\<close>

definition ask :: "world \<Rightarrow> string \<Rightarrow> string \<Rightarrow> obj \<Rightarrow> obj act" where
  "ask w method name answers =
     bnd (emit (Prompt name)) (\<lambda>_. ret (obj_set answers name (answer w method name)))"

definition question ::
  "world \<Rightarrow> string \<Rightarrow> string \<Rightarrow> (bool \<times> obj) act \<Rightarrow> obj \<Rightarrow> (obj \<times> obj) act" where
  "question w method name when answers =
     bnd when (\<lambda>(asked, environmentAnswers).
       if asked
       then bnd (ask w method name answers) (\<lambda>answers'. ret (answers', environmentAnswers))
       else ret (answers, environmentAnswers))"

definition notAsking :: "string \<Rightarrow> string" where
  "notAsking var = var @ '' is set in the environment, not going to ask for value.''"

text \<open>The predicate of a plain value question: skip it when the environment gave the value.\<close>

definition whenNotInEnvironment :: "obj \<Rightarrow> string \<Rightarrow> string \<Rightarrow> (bool \<times> obj) act" where
  "whenNotInEnvironment environmentAnswers key var =
     (if truthy (obj_get environmentAnswers key)
      then bnd (emit (Log Info (notAsking var))) (\<lambda>_. ret (False, environmentAnswers))
      else ret (True, obj_delete environmentAnswers key))"

definition validateCredentialsForPlatform ::
  "world \<Rightarrow> string \<Rightarrow> obj option \<Rightarrow> credentialMetadata \<Rightarrow> unit act" where
  "validateCredentialsForPlatform w kind credentials md =
     bnd (emit (ValidateCredentials ''ios'' kind credentials md)) (\<lambda>_.
       if validate_ok w kind then ret ()
       else throw (ServiceRejected ''validateCredentialsForPlatform''))"

text \<open>\<open>validateCertificatePath\<close>: \<open>fs.stat\<close> finds a regular file, or logs and answers false.\<close>

definition validateCertificatePath :: "world \<Rightarrow> jsval \<Rightarrow> bool act" where
  "validateCertificatePath w p12Path =
     bnd (emit (StatFile p12Path)) (\<lambda>_.
       case p12Path of
         JStr s \<Rightarrow> (case files w s of
                      Some b \<Rightarrow> ret True
                    | None \<Rightarrow> bnd (emit (ConsoleLog (JStr ''File does not exist.''))) (\<lambda>_. ret False))
       | _ \<Rightarrow> bnd (emit (ConsoleLog (JStr ''File does not exist.''))) (\<lambda>_. ret False))"

subsection \<open>The iOS builder, second version in \<open>IOSBuilder.js\<close>\<close>

definition askForAppleId :: "world \<Rightarrow> credentialMetadata \<Rightarrow> unit act" where
  "askForAppleId w credentialMetadata =
     (let environmentAnswers =
            [(''appleId'', env_get (env w) ''EXP_APPLE_ID''),
             (''password'', env_get (env w) ''EXP_APPLE_PASSWORD''),
             (''teamId'', env_get (env w) ''EXP_APPLE_TEAM_ID'')]
      in
      bnd (emit (ConsoleLog (JStr ''We need your Apple ID/password to manage certificates and provisioning profiles from your Apple Developer account.''))) (\<lambda>_.
      bnd (question w ''askForAppleId'' ''appleId''
             (whenNotInEnvironment environmentAnswers ''appleId'' ''EXP_APPLE_ID'') []) (\<lambda>(answers, environmentAnswers).
      bnd (question w ''askForAppleId'' ''password''
             (whenNotInEnvironment environmentAnswers ''password'' ''EXP_APPLE_PASSWORD'') answers) (\<lambda>(answers, environmentAnswers).
      bnd (question w ''askForAppleId'' ''teamId''
             (whenNotInEnvironment environmentAnswers ''teamId'' ''EXP_APPLE_TEAM_ID'') answers) (\<lambda>(answers, environmentAnswers).
      let answers = obj_assign answers environmentAnswers;
          credentials = [(''appleId'', obj_get answers ''appleId''),
                         (''password'', obj_get answers ''password''),
                         (''teamId'', obj_get answers ''teamId'')]
      in
      bnd (emit (Log Info ''Validating Apple credentials...'')) (\<lambda>_.
      bnd (validateCredentialsForPlatform w ''appleId'' (Some credentials) credentialMetadata) (\<lambda>_.
      updateCredentialsForPlatform w ''ios'' credentials credentialMetadata)))))))"

text \<open>
  The predicates of the two certificate questions that follow the strategy question. Both
  \<open>askForCerts\<close> and \<open>askForPushCerts\<close> test the key \<open>manageCertificates\<close> here.
\<close>

definition whenPathToP12 :: "world \<Rightarrow> string \<Rightarrow> obj \<Rightarrow> obj \<Rightarrow> (bool \<times> obj) act" where
  "whenPathToP12 w var answers environmentAnswers =
     (if truthy (obj_get answers ''manageCertificates'')
         \<or> truthy (obj_get environmentAnswers ''manageCertificates'')
      then ret (False, obj_delete environmentAnswers ''pathToP12'')
      else if truthy (obj_get environmentAnswers ''pathToP12'') then
        bnd (validateCertificatePath w (obj_get environmentAnswers ''pathToP12'')) (\<lambda>valid.
          if \<not> valid
          then bnd (emit (Log Info (var @ '' is set in the environment to an invalid value.''))) (\<lambda>_.
               ret (True, obj_delete environmentAnswers ''pathToP12''))
          else bnd (emit (Log Info (notAsking var))) (\<lambda>_. ret (False, environmentAnswers)))
      else ret (True, obj_delete environmentAnswers ''pathToP12''))"

definition whenCertPassword :: "string \<Rightarrow> obj \<Rightarrow> obj \<Rightarrow> (bool \<times> obj) act" where
  "whenCertPassword var answers environmentAnswers =
     (if truthy (obj_get answers ''manageCertificates'')
         \<or> truthy (obj_get environmentAnswers ''manageCertificates'')
      then ret (False, obj_delete environmentAnswers ''certPassword'')
      else if truthy (obj_get environmentAnswers ''certPassword'')
      then bnd (emit (Log Info (notAsking var))) (\<lambda>_. ret (False, environmentAnswers))
      else ret (True, obj_delete environmentAnswers ''certPassword''))"

definition notAskingToManage :: "string \<Rightarrow> string \<Rightarrow> string" where
  "notAskingToManage var1 var2 =
     var1 @ '' and/or '' @ var2
       @ '' is set in the environment, not going to ask if you want us to manage your certificates.''"

definition askForCerts :: "world \<Rightarrow> credentialMetadata \<Rightarrow> unit act" where
  "askForCerts w credentialMetadata =
     (let environmentAnswers0 =
            [(''pathToP12'', env_get (env w) ''EXP_DIST_CERTIFICATE_PATH''),
             (''certPassword'', env_get (env w) ''EXP_DIST_CERTIFICATE_PASSWORD''),
             (''manageCertificates'', JBool True)];
          environmentAnswers =
            (if truthy (obj_get environmentAnswers0 ''pathToP12'')
                \<or> truthy (obj_get environmentAnswers0 ''certPassword'')
             then obj_set environmentAnswers0 ''manageCertificates'' (JBool False)
             else environmentAnswers0)
      in
      bnd (question w ''askForCerts'' ''manageCertificates''
             (if \<not> truthy (obj_get environmentAnswers ''manageCertificates'')
              then bnd (emit (Log Info (notAskingToManage ''EXP_DIST_CERTIFICATE_PATH'' ''EXP_DIST_CERTIFICATE_PASSWORD''))) (\<lambda>_.
                   ret (False, environmentAnswers))
              else ret (True, obj_delete environmentAnswers ''manageCertificates'')) []) (\<lambda>(answers, environmentAnswers).
      bnd (question w ''askForCerts'' ''pathToP12''
             (whenPathToP12 w ''EXP_DIST_CERTIFICATE_PATH'' answers environmentAnswers) answers) (\<lambda>(answers, environmentAnswers).
      bnd (question w ''askForCerts'' ''certPassword''
             (whenCertPassword ''EXP_DIST_CERTIFICATE_PASSWORD'' answers environmentAnswers) answers) (\<lambda>(answers, environmentAnswers).
      let answers = obj_assign answers environmentAnswers in
      bnd (if truthy (obj_get answers ''manageCertificates'') then
             bnd (emit (Log Info ''Generating distribution certificate...'')) (\<lambda>_.
             emit (FetchAppleCertificates credentialMetadata))
           else
             bnd (readFileBase64 (files w) (obj_get answers ''pathToP12'')) (\<lambda>p12Data.
             let credentials = [(''certP12'', p12Data),
                                (''certPassword'', obj_get answers ''certPassword'')]
             in
             bnd (emit (Log Info ''Validating distribution certificate...'')) (\<lambda>_.
             bnd (validateCredentialsForPlatform w ''cert'' (Some credentials) credentialMetadata) (\<lambda>_.
             updateCredentialsForPlatform w ''ios'' credentials credentialMetadata)))) (\<lambda>_.
      emit (Log Info ''Distribution certificate setup complete.''))))))"

definition askForPushCerts :: "world \<Rightarrow> credentialMetadata \<Rightarrow> unit act" where
  "askForPushCerts w credentialMetadata =
     (let environmentAnswers0 =
            [(''pathToP12'', env_get (env w) ''EXP_PUSH_CERTIFICATE_PATH''),
             (''certPassword'', env_get (env w) ''EXP_PUSH_CERTIFICATE_PASSWORD''),
             (''managePushCertificates'', JBool True)];
          environmentAnswers =
            (if truthy (obj_get environmentAnswers0 ''pathToP12'')
                \<or> truthy (obj_get environmentAnswers0 ''certPassword'')
             then obj_set environmentAnswers0 ''managePushCertificates'' (JBool False)
             else environmentAnswers0)
      in
      bnd (question w ''askForPushCerts'' ''managePushCertificates''
             (if \<not> truthy (obj_get environmentAnswers ''manageCertificates'')
              then bnd (emit (Log Info (notAskingToManage ''EXP_PUSH_CERTIFICATE_PATH'' ''EXP_PUSH_CERTIFICATE_PASSWORD''))) (\<lambda>_.
                   ret (False, environmentAnswers))
              else ret (True, obj_delete environmentAnswers ''manageCertificates'')) []) (\<lambda>(answers, environmentAnswers).
      bnd (question w ''askForPushCerts'' ''pathToP12''
             (whenPathToP12 w ''EXP_PUSH_CERTIFICATE_PATH'' answers environmentAnswers) answers) (\<lambda>(answers, environmentAnswers).
      bnd (question w ''askForPushCerts'' ''certPassword''
             (whenCertPassword ''EXP_PUSH_CERTIFICATE_PASSWORD'' answers environmentAnswers) answers) (\<lambda>(answers, environmentAnswers).
      let answers = obj_assign answers environmentAnswers in
      bnd (if truthy (obj_get answers ''managePushCertificates'') then
             bnd (emit (Log Info ''Fetching a new push certificate...'')) (\<lambda>_.
             emit (FetchPushCertificates credentialMetadata))
           else
             bnd (readFileBase64 (files w) (obj_get answers ''pathToP12'')) (\<lambda>p12Data.
             let credentials = [(''pushP12'', p12Data),
                                (''pushPassword'', obj_get answers ''certPassword'')]
             in
             bnd (emit (Log Info ''Validating push certificate...'')) (\<lambda>_.
             bnd (validateCredentialsForPlatform w ''push'' (Some credentials) credentialMetadata) (\<lambda>_.
             updateCredentialsForPlatform w ''ios'' credentials credentialMetadata)))) (\<lambda>_.
      emit (Log Info ''Push certificate setup complete.''))))))"

definition collectAndValidateCredentials :: "world \<Rightarrow> unit act" where
  "collectAndValidateCredentials w =
     (let credentialMetadata =
            iosMetadata w
      in
      bnd (emit (Log Info ''Checking for existing Apple credentials...'')) (\<lambda>_.
      bnd (emit (CredentialsExist credentialMetadata)) (\<lambda>_.
      let existing = (if clearCredentials (opts w) then None else stored w);
          hasAppleId = (case existing of None \<Rightarrow> False | Some c \<Rightarrow> truthy (obj_get c ''appleId''));
          hasCert = (case existing of None \<Rightarrow> False | Some c \<Rightarrow> truthy (obj_get c ''certP12''));
          hasPushCert = (case existing of None \<Rightarrow> False | Some c \<Rightarrow> truthy (obj_get c ''pushP12''))
      in
      bnd (if \<not> hasAppleId then askForAppleId w credentialMetadata
           else bnd (emit (Log Info ''Validating Apple credentials...'')) (\<lambda>_.
                validateCredentialsForPlatform w ''appleId'' None credentialMetadata)) (\<lambda>_.
      bnd (emit (Log Info ''Credentials valid.'')) (\<lambda>_.
      bnd (if \<not> hasCert then askForCerts w credentialMetadata
           else bnd (emit (Log Info ''Validating distribution certificate...'')) (\<lambda>_.
                validateCredentialsForPlatform w ''cert'' None credentialMetadata)) (\<lambda>_.
      bnd (emit (Log Info ''Validating app id...'')) (\<lambda>_.
      bnd (emit (EnsureAppId credentialMetadata)) (\<lambda>_.
      bnd (if ensureAppId_ok w then ret () else throw CREDENTIAL_ERROR) (\<lambda>_.
      if \<not> hasPushCert then askForPushCerts w credentialMetadata
      else bnd (emit (Log Info ''Validating push certificate...'')) (\<lambda>_.
           validateCredentialsForPlatform w ''push'' None credentialMetadata))))))))))"

definition IOSBuilder2_run :: "world \<Rightarrow> unit act" where
  "IOSBuilder2_run w =
     bnd (emit GetPublishInfo) (\<lambda>_.
     if \<not> truthy (bundleIdentifierIOS (info w)) then throw INVALID_OPTIONS
     else
       bnd (emit CheckStatus) (\<lambda>_.
       bnd (if opt_type (opts w) \<noteq> JStr ''simulator''
            then catch (collectAndValidateCredentials w)
                   (\<lambda>e. bnd (emit (Log Error ''Error validating credentials. You may need to clear them (with `-c`) and try again.'')) (\<lambda>_.
                        throw e))
            else ret ()) (\<lambda>_.
       bnd (emit Publish) (\<lambda>_.
       emit (Build ''ios'')))))"

subsection \<open>The Android builder\<close>

definition androidMetadata :: "world \<Rightarrow> credentialMetadata" where
  "androidMetadata w =
     \<lparr> md_username = username (info w),
       md_experienceName = remoteFullPackageName (info w),
       md_bundleIdentifier = JUndefined,
       md_platform = ''android'' \<rparr>"

text \<open>\<open>_clearCredentials\<close>, the standalone clear flow.\<close>

definition AndroidBuilder_clearCredentials :: "world \<Rightarrow> unit act" where
  "AndroidBuilder_clearCredentials w =
     bnd (emit GetPublishInfo) (\<lambda>_.
     bnd (if localKeystoreExists w
          then emit (Log Warn ''Detected a local copy of an Android keystore. Please double check that the keystore is up to date so it can be used as a backup.'')
          else bnd (emit (Log Warn ''Cannot find a local keystore in the current project directory.'')) (\<lambda>_.
               bnd (emit (Log Warn ''Can you make sure you have a local backup of your keystore?'')) (\<lambda>_.
               emit (Log Warn ''You can fetch an updated version from our servers by using `exp fetch:android:keystore [project-dir]`'')))) (\<lambda>_.
     bnd (emit (Log Warn ''Clearing your Android build credentials from our build servers is a PERMANENT and IRREVERSIBLE action.'')) (\<lambda>_.
     bnd (emit (Log Warn ''Android keystores must be identical to the one previously used to submit your app to the Google Play Store.'')) (\<lambda>_.
     bnd (emit (Log Warn ''Please read https://docs.expo.io/versions/latest/guides/building-standalone-apps.html#if-you-choose-to-build-for-android for more info before proceeding.'')) (\<lambda>_.
     bnd (ask w ''_clearCredentials'' ''confirm'' []) (\<lambda>answers.
     if truthy (obj_get answers ''confirm'')
     then emit (RemoveCredentials ''android'' (androidMetadata w))
     else ret ()))))))"

text \<open>The predicate shared by the four keystore value questions.\<close>

definition whenKeystoreField :: "string \<Rightarrow> string \<Rightarrow> obj \<Rightarrow> obj \<Rightarrow> (bool \<times> obj) act" where
  "whenKeystoreField key var answers environmentAnswers =
     (if \<not> truthy (obj_get answers ''uploadKeystore'')
         \<and> \<not> truthy (obj_get environmentAnswers ''uploadKeystore'')
      then ret (False, obj_delete environmentAnswers key)
      else if truthy (obj_get environmentAnswers key)
      then bnd (emit (Log Info (notAsking var))) (\<lambda>_. ret (False, environmentAnswers))
      else ret (True, obj_delete environmentAnswers key))"

definition AndroidBuilder_collectAndValidateCredentials :: "world \<Rightarrow> unit act" where
  "AndroidBuilder_collectAndValidateCredentials w =
     bnd (emit GetPublishInfo) (\<lambda>_.
     bnd (emit (CredentialsExist (androidMetadata w))) (\<lambda>_.
     if clearCredentials (opts w) \<or> stored w = None then
       (let environmentAnswers0 =
              [(''keystorePath'', env_get (env w) ''EXP_ANDROID_KEYSTORE_PATH''),
               (''keystoreAlias'', env_get (env w) ''EXP_ANDROID_KEYSTORE_ALIAS''),
               (''keystorePassword'', env_get (env w) ''EXP_ANDROID_STORE_PASSWORD''),
               (''keyPassword'', env_get (env w) ''EXP_ANDROID_KEY_PASSWORD''),
               (''uploadKeystore'', JBool False)];
            environmentAnswers =
              (if truthy (obj_get environmentAnswers0 ''keystorePath'')
                  \<or> truthy (obj_get environmentAnswers0 ''keystoreAlias'')
                  \<or> truthy (obj_get environmentAnswers0 ''keystorePassword'')
                  \<or> truthy (obj_get environmentAnswers0 ''keyPassword'')
               then obj_set environmentAnswers0 ''uploadKeystore'' (JBool True)
               else environmentAnswers0)
        in
        bnd (question w ''collectAndValidateCredentials'' ''uploadKeystore''
               (if truthy (obj_get environmentAnswers ''uploadKeystore'')
                then bnd (emit (Log Info ''EXP_ANDROID_KEYSTORE_PATH and/or EXP_ANDROID_KEYSTORE_ALIAS and/or EXP_ANDROID_STORE_PASSWORD and/or EXP_ANDROID_KEY_PASSWORD is set in the environment, not going to ask if you want us to manage your certificates.'')) (\<lambda>_.
                     ret (False, environmentAnswers))
                else ret (True, obj_delete environmentAnswers ''uploadKeystore'')) []) (\<lambda>(answers, environmentAnswers).
        bnd (question w ''collectAndValidateCredentials'' ''keystorePath''
               (whenKeystoreField ''keystorePath'' ''EXP_ANDROID_KEYSTORE_PATH'' answers environmentAnswers) answers) (\<lambda>(answers, environmentAnswers).
        bnd (question w ''collectAndValidateCredentials'' ''keystoreAlias''
               (whenKeystoreField ''keystoreAlias'' ''EXP_ANDROID_KEYSTORE_ALIAS'' answers environmentAnswers) answers) (\<lambda>(answers, environmentAnswers).
        bnd (question w ''collectAndValidateCredentials'' ''keystorePassword''
               (whenKeystoreField ''keystorePassword'' ''EXP_ANDROID_STORE_PASSWORD'' answers environmentAnswers) answers) (\<lambda>(answers, environmentAnswers).
        bnd (question w ''collectAndValidateCredentials'' ''keyPassword''
               (whenKeystoreField ''keyPassword'' ''EXP_ANDROID_KEY_PASSWORD'' answers environmentAnswers) answers) (\<lambda>(answers, environmentAnswers).
        let answers = obj_assign answers environmentAnswers in
        if \<not> truthy (obj_get answers ''uploadKeystore'') then
          (if clearCredentials (opts w) then AndroidBuilder_clearCredentials w else ret ())
        else
          bnd (readFileBase64 (files w) (obj_get answers ''keystorePath'')) (\<lambda>keystoreData.
          updateCredentialsForPlatform w ''android''
                  [(''keystore'', keystoreData),
                   (''keystoreAlias'', obj_get answers ''keystoreAlias''),
                   (''keystorePassword'', obj_get answers ''keystorePassword''),
                   (''keyPassword'', obj_get answers ''keyPassword'')]
                  (androidMetadata w))))))))
     else ret ()))"


section \<open>The stored bundles\<close>

text \<open>
  The build service keeps one bundle per identity; it is outside the builders, and its
  interface is all that is known of it. The only calls of the builders that change it are
  the remove call, which drops the identity's bundle, and the update call, which writes
  the given fields into it.
\<close>

type_synonym store = "credentialMetadata \<Rightarrow> obj option"

fun applyEvent :: "store \<Rightarrow> event \<Rightarrow> store" where
  "applyEvent st (RemoveCredentials platform md) = st(md := None)"
| "applyEvent st (UpdateCredentials platform credentials md) =
     st(md := Some (obj_assign (case st md of None \<Rightarrow> [] | Some b \<Rightarrow> b) credentials))"
| "applyEvent st ev = st"

definition storeAfter :: "store \<Rightarrow> event list \<Rightarrow> store" where
  "storeAfter st evs = foldl applyEvent st evs"

fun isMutation :: "event \<Rightarrow> bool" where
  "isMutation (RemoveCredentials platform md) = True"
| "isMutation (UpdateCredentials platform credentials md) = True"
| "isMutation ev = False"

fun isPrompt :: "event \<Rightarrow> bool" where
  "isPrompt (Prompt name) = True"
| "isPrompt ev = False"

text \<open>Managed generation: the helpers that have the service create a certificate or profile.\<close>

fun isManagedGeneration :: "event \<Rightarrow> bool" where
  "isManagedGeneration (Auth ProduceCerts) = True"
| "isManagedGeneration (Auth ProducePushCerts) = True"
| "isManagedGeneration (Auth ProduceProvisionProfile) = True"
| "isManagedGeneration (FetchAppleCertificates md) = True"
| "isManagedGeneration (FetchPushCertificates md) = True"
| "isManagedGeneration ev = False"

text \<open>Every call that reaches the build service or the Apple developer portal.\<close>

fun isNetworkCall :: "event \<Rightarrow> bool" where
  "isNetworkCall CheckStatus = True"
| "isNetworkCall (CredentialsExist md) = True"
| "isNetworkCall (RemoveCredentials platform md) = True"
| "isNetworkCall (UpdateCredentials platform credentials md) = True"
| "isNetworkCall (ValidateCredentials platform kind credentials md) = True"
| "isNetworkCall (FetchAppleCertificates md) = True"
| "isNetworkCall (FetchPushCertificates md) = True"
| "isNetworkCall (EnsureAppId md) = True"
| "isNetworkCall (Auth a) = True"
| "isNetworkCall Publish = True"
| "isNetworkCall (EnsureReleaseExists platform) = True"
| "isNetworkCall (Build platform) = True"
| "isNetworkCall ev = False"

text \<open>Credential work: fetching, resolving, validating or changing credentials.\<close>

fun isCredentialEvent :: "event \<Rightarrow> bool" where
  "isCredentialEvent (CredentialsExist md) = True"
| "isCredentialEvent (RemoveCredentials platform md) = True"
| "isCredentialEvent (UpdateCredentials platform credentials md) = True"
| "isCredentialEvent (ValidateCredentials platform kind credentials md) = True"
| "isCredentialEvent (FetchAppleCertificates md) = True"
| "isCredentialEvent (FetchPushCertificates md) = True"
| "isCredentialEvent (EnsureAppId md) = True"
| "isCredentialEvent (Auth a) = True"
| "isCredentialEvent (Prompt name) = True"
| "isCredentialEvent (ReadFile p) = True"
| "isCredentialEvent (StatFile p) = True"
| "isCredentialEvent ev = False"

text \<open>
  Events that stay on the operator's machine (questions, file reads, log lines), together
  with the calls of the authentication helpers listed in \<open>S\<close>.
\<close>

fun isLocalOrAuth :: "authcall set \<Rightarrow> event \<Rightarrow> bool" where
  "isLocalOrAuth S (Auth a) = (a \<in> S)"
| "isLocalOrAuth S (Prompt name) = True"
| "isLocalOrAuth S (ReadFile p) = True"
| "isLocalOrAuth S (StatFile p) = True"
| "isLocalOrAuth S (Log l s) = True"
| "isLocalOrAuth S (ConsoleLog v) = True"
| "isLocalOrAuth S ev = False"

fun isUpsert :: "event \<Rightarrow> bool" where
  "isUpsert (UpdateCredentials platform credentials md) = True"
| "isUpsert ev = False"

section \<open>Notions used in the statements\<close>

text \<open>
  The warning of \<open>_areCredsMissing\<close> for a bundle, and the events and the outcome with
  which \<open>runLocalAuth\<close> commits a bundle: the warning when an obligatory key is missing,
  the update call, and the closing log line when the update resolved.
\<close>

definition missingMessage :: "obj \<Rightarrow> string" where
  "missingMessage b = ''We do not have some credentials for you, '' @ join '','' (credsMissing b)"

definition commitEvents :: "world \<Rightarrow> credentialMetadata \<Rightarrow> obj \<Rightarrow> event list" where
  "commitEvents w md b =
     (if credsMissing b \<noteq> [] then [Log Warn (missingMessage b)] else [])
       @ [UpdateCredentials ''ios'' b md]
       @ (if update_ok w then [Log Warn savedMessage] else [])"

definition commitResult :: "world \<Rightarrow> err + unit" where
  "commitResult w =
     (if update_ok w then Inr () else Inl (ServiceRejected ''updateCredentialsForPlatform''))"

text \<open>
  The interactive branch of \<open>runLocalAuth\<close> up to its completeness check: the strategy
  question, the validation of the Apple credentials and the resolution of the slots.
\<close>

definition interactiveResolution :: "world \<Rightarrow> obj \<Rightarrow> obj act" where
  "interactiveResolution w credsStarter =
     bnd (emit (Prompt ''isExpoManaged'')) (\<lambda>_.
     bnd (validateCredsEnsureAppExists w credsStarter (\<not> ans_isExpoManaged (oper w))) (\<lambda>credsStarter'.
     bnd (if ans_isExpoManaged (oper w)
          then runningAsExpoManaged w credsStarter'
          else runningAsExpert w credsStarter') (\<lambda>credsStarter''.
     bnd (if DEBUG (auth w) then emit (ConsoleLog (JObj credsStarter'')) else ret ()) (\<lambda>_.
     ret credsStarter''))))"

text \<open>
  Names for the parts of \<open>runLocalAuth\<close>: the commit of a bundle, what the lookup of the
  stored bundle logs and finds, and the three-way branch after the lookup.
\<close>

definition commitBundle :: "world \<Rightarrow> credentialMetadata \<Rightarrow> obj \<Rightarrow> unit act" where
  "commitBundle w md creds =
     bnd (areCredsMissing creds) (\<lambda>_.
     bnd (updateCredentialsForPlatform w ''ios'' creds md) (\<lambda>_.
     emit (Log Warn savedMessage)))"

definition lookupEvents :: "world \<Rightarrow> credentialMetadata \<Rightarrow> event list" where
  "lookupEvents w md =
     CredentialsExist md # (case stored w of None \<Rightarrow> [] | Some found \<Rightarrow> fst (areCredsMissing found))"

definition foundBundle :: "world \<Rightarrow> obj" where
  "foundBundle w = (case stored w of None \<Rightarrow> [] | Some found \<Rightarrow> found)"

definition foundComplete :: "world \<Rightarrow> bool" where
  "foundComplete w = (case stored w of None \<Rightarrow> False | Some found \<Rightarrow> credsMissing found = [])"

definition afterLookup :: "world \<Rightarrow> credentialMetadata \<Rightarrow> unit act" where
  "afterLookup w md =
     (if useCi (opts w) then
        bnd (runningAsCI w (foundBundle w)) (commitBundle w md)
      else if \<not> foundComplete w then
        bnd (interactiveResolution w (foundBundle w)) (\<lambda>c. commitBundle w md (obj_delete c ''result''))
      else emit (Log Info ''Using existing credentials for this build''))"

text \<open>
  Whether \<open>runLocalAuth\<close> resolves a bundle at all (CI mode, or an obligatory key missing
  from what is stored), and the resolution itself: what yields the bundle that is then
  checked and committed.
\<close>

definition resolves :: "world \<Rightarrow> bool" where
  "resolves w = (useCi (opts w) \<or> \<not> foundComplete w)"

definition resolution :: "world \<Rightarrow> obj act" where
  "resolution w =
     (if useCi (opts w) then runningAsCI w (foundBundle w)
      else bnd (interactiveResolution w (foundBundle w)) (\<lambda>c. ret (obj_delete c ''result'')))"

text \<open>
  The store-changing calls of a whole run of the batch iOS builder: the removal asked for
  by \<open>clearCredentials\<close>, then the one update once resolution has returned a bundle.
\<close>

definition runMutations :: "world \<Rightarrow> event list" where
  "runMutations w =
     (if \<not> truthy (bundleIdentifierIOS (info w)) then []
      else (if clearCredentials (opts w) then [RemoveCredentials ''ios'' (iosMetadata w)] else [])
           @ (if opt_type (opts w) \<noteq> JStr ''simulator'' \<and> resolves w
              then (case snd (resolution w) of
                      Inl e \<Rightarrow> []
                    | Inr b \<Rightarrow> [UpdateCredentials ''ios'' b (iosMetadata w)])
              else []))"

text \<open>
  An environment variable that names a readable file; the exception of reading the file a
  variable names when it does not; and the first of the three file variables of
  \<open>runningAsCI\<close>, in the order it reads them, that names no readable file.
\<close>

definition envFileReadable :: "world \<Rightarrow> string \<Rightarrow> bool" where
  "envFileReadable w var = (case env w var of None \<Rightarrow> False | Some p \<Rightarrow> files w p \<noteq> None)"

definition readError :: "world \<Rightarrow> string \<Rightarrow> err" where
  "readError w var =
     (case env w var of
        None \<Rightarrow> TypeError ''path must be a string or Buffer''
      | Some p \<Rightarrow> FileError (JStr p))"

definition firstUnreadable :: "world \<Rightarrow> string" where
  "firstUnreadable w =
     (if \<not> envFileReadable w ''EXP_PROVIONING_PROFILE_PATH'' then ''EXP_PROVIONING_PROFILE_PATH''
      else if \<not> envFileReadable w ''EXP_DIST_CERTIFICATE_PATH'' then ''EXP_DIST_CERTIFICATE_PATH''
      else ''EXP_PUSH_CERTIFICATE_PATH'')"

text \<open>
  The per-field iOS builder treats its three slots one after the other. A slot is stored
  when \<open>clearCredentials\<close> is off and the stored bundle has a truthy value under the
  slot's key (\<open>hasAppleId\<close>, \<open>hasCert\<close>, \<open>hasPushCert\<close> in the source); the step of a
  slot collects it when it is not stored and validates the stored value otherwise.
\<close>

definition hasSlot :: "world \<Rightarrow> string \<Rightarrow> bool" where
  "hasSlot w key =
     (case (if clearCredentials (opts w) then None else stored w) of
        None \<Rightarrow> False
      | Some c \<Rightarrow> truthy (obj_get c key))"



definition pushStep :: "world \<Rightarrow> unit act" where
  "pushStep w =
     (if \<not> hasSlot w ''pushP12'' then askForPushCerts w (iosMetadata w)
      else bnd (emit (Log Info ''Validating push certificate...'')) (\<lambda>_.
           validateCredentialsForPlatform w ''push'' None (iosMetadata w)))"

text \<open>
  A call \<open>a\<close> surfaces in a run when, if the run makes it at all, the run makes it once,
  logs \<open>hint\<close> and ends with the exception \<open>e\<close>.
\<close>

definition surfaces :: "event \<Rightarrow> event \<Rightarrow> err \<Rightarrow> 'a act \<Rightarrow> bool" where
  "surfaces a hint e m =
     (a \<notin> set (fst m)
      \<or> (snd m = Inl e \<and> hint \<in> set (fst m) \<and> length (filter (\<lambda>ev. ev = a) (fst m)) = 1))"

text \<open>An environment variable that is falsy for the builders: not set, or set to the empty string.\<close>

definition unsetOrEmpty :: "world \<Rightarrow> string \<Rightarrow> bool" where
  "unsetOrEmpty w var = (env w var = None \<or> env w var = Some [])"


section \<open>Sample runs\<close>

definition info0 :: publishInfo where
  "info0 = \<lparr> username = ''alice'', remotePackageName = ''com.example.app'',
             remoteFullPackageName = ''@alice/app'',
             bundleIdentifierIOS = JStr ''com.example.app'' \<rparr>"

definition iosMetadata0 :: credentialMetadata where
  "iosMetadata0 = \<lparr> md_username = ''alice'', md_experienceName = ''@alice/app'',
                    md_bundleIdentifier = JStr ''com.example.app'', md_platform = ''ios'' \<rparr>"

definition auth0 :: authFuncs where
  "auth0 = \<lparr> DEBUG = False,
             NO_BUNDLE_ID = ''No bundle id'',
             MULTIPLE_PROFILES = ''Multiple profiles'',
             doFastlaneActionsExist_reply = JBool True,
             validateCredentialsProduceTeamId_reply =
               [(''result'', JStr ''success''), (''teamId'', JStr ''TEAM1'')],
             ensureAppIdLocally_reply = [(''result'', JStr ''success'')],
             createAppOnPortal_reply = [(''result'', JStr ''success'')],
             produceCerts_reply =
               [(''result'', JStr ''success''), (''certP12'', JStr ''Q0VSVA==''),
                (''certPassword'', JStr ''pw1'')],
             producePushCerts_reply =
               [(''result'', JStr ''success''), (''pushP12'', JStr ''UFVTSA==''),
                (''pushPassword'', JStr ''pw2'')],
             produceProvisionProfile_reply =
               [(''result'', JStr ''success''), (''provisioningProfile'', JStr ''UFJPRg=='')] \<rparr>"

definition oper0 :: operator where
  "oper0 = \<lparr> ans_isExpoManaged = True, ans_distCert = True, ans_pushCert = True,
             ans_appleId = ''alice@example.com'', ans_password = ''secret'',
             ans_dist_pathToP12 = ''/dist.p12'', ans_dist_p12Password = ''pw1'',
             ans_push_pathToP12 = ''/push.p12'', ans_push_p12Password = ''pw2'',
             ans_pathToProvisioningProfile = ''/app.mobileprovision'' \<rparr>"

definition files0 :: "string \<Rightarrow> string option" where
  "files0 = [''/dist.p12'' \<mapsto> ''Q0VSVA=='', ''/push.p12'' \<mapsto> ''UFVTSA=='',
             ''/app.mobileprovision'' \<mapsto> ''UFJPRg=='', ''/release.jks'' \<mapsto> ''SktT'']"

definition w0 :: world where
  "w0 = \<lparr> info = info0,
          opts = \<lparr> clearCredentials = False, useCi = False, opt_type = JStr ''archive'' \<rparr>,
          env = Map.empty,
          files = files0,
          stored = None,
          auth = auth0,
          oper = oper0,
          answer = (\<lambda>method name. JUndefined),
          validate_ok = (\<lambda>kind. True),
          ensureAppId_ok = True,
          update_ok = True,
          localKeystoreExists = False \<rparr>"

definition envCI :: "string \<Rightarrow> string option" where
  "envCI = [''EXP_DIST_CERTIFICATE_PATH'' \<mapsto> ''/dist.p12'',
            ''EXP_DIST_CERTIFICATE_PASSWORD'' \<mapsto> ''pw1'',
            ''EXP_PUSH_CERTIFICATE_PATH'' \<mapsto> ''/push.p12'',
            ''EXP_PUSH_CERTIFICATE_PASSWORD'' \<mapsto> ''pw2'',
            ''EXP_PROVIONING_PROFILE_PATH'' \<mapsto> ''/app.mobileprovision'']"

definition wCI :: world where
  "wCI = w0\<lparr> opts := \<lparr> clearCredentials = False, useCi = True, opt_type = JStr ''archive'' \<rparr>,
              env := envCI \<rparr>"

definition wManagedGap :: world where
  "wManagedGap = w0\<lparr> auth := auth0\<lparr> produceCerts_reply := [(''result'', JStr ''success'')] \<rparr> \<rparr>"

definition wNoDistPath :: world where
  "wNoDistPath = wCI\<lparr> env := envCI(''EXP_DIST_CERTIFICATE_PATH'' := None) \<rparr>"

definition wProfileRejected :: world where
  "wProfileRejected =
     w0\<lparr> auth := auth0\<lparr> produceProvisionProfile_reply :=
            [(''result'', JStr ''failure''),
             (''reason'', JStr ''Multiple profiles found with the name App''),
             (''rawDump'', JNull)] \<rparr> \<rparr>"











definition wTyping :: world where
  "wTyping = w0\<lparr> answer := (\<lambda>method name. JStr ''typed'') \<rparr>"

definition completeBundle :: obj where
  "completeBundle =
     [(''certP12'', JStr ''T0xE''), (''certPassword'', JStr ''opw1''),
      (''pushP12'', JStr ''T0xF''), (''pushPassword'', JStr ''opw2''),
      (''provisioningProfile'', JStr ''T0xG''), (''teamId'', JStr ''TEAM0'')]"

definition wComplete :: world where
  "wComplete = w0\<lparr> stored := Some completeBundle \<rparr>"

definition wUpdateRejected :: world where
  "wUpdateRejected = wManagedGap\<lparr> update_ok := False \<rparr>"

definition gapBundle :: obj where
  "gapBundle =
     [(''teamId'', JStr ''TEAM1''), (''pushP12'', JStr ''UFVTSA==''),
      (''pushPassword'', JStr ''pw2''), (''provisioningProfile'', JStr ''UFJPRg=='')]"

definition wPushUnreadable :: world where
  "wPushUnreadable = wCI\<lparr> env := envCI(''EXP_PUSH_CERTIFICATE_PATH'' \<mapsto> ''/gone.p12'') \<rparr>"

definition wClearRejected :: world where
  "wClearRejected =
     wProfileRejected\<lparr> opts := \<lparr> clearCredentials = True, useCi = False,
                                  opt_type = JStr ''archive'' \<rparr> \<rparr>"


definition wNoBundleIdentifier :: world where
  "wNoBundleIdentifier = w0\<lparr> info := info0\<lparr> bundleIdentifierIOS := JUndefined \<rparr> \<rparr>"

definition wSimulatorClear :: world where
  "wSimulatorClear =
     w0\<lparr> opts := \<lparr> clearCredentials = True, useCi = False, opt_type = JStr ''simulator'' \<rparr> \<rparr>"

definition wDecline :: world where
  "wDecline = w0\<lparr> answer := (\<lambda>method name. JBool False) \<rparr>"

definition store0 :: store where
  "store0 = (\<lambda>md. None)(androidMetadata w0 := Some [(''keystore'', JStr ''SktT'')])"

section \<open>Sequencing lemmas\<close>

lemma bnd_Inl [simp]: "bnd (es, Inl e) f = (es, Inl e)"
  by (simp add: bnd_def)

lemma bnd_Inr [simp]: "bnd (es, Inr x) f = (es @ fst (f x), snd (f x))"
  by (simp add: bnd_def)

lemma catch_Inl [simp]: "catch (es, Inl e) h = (es @ fst (h e), snd (h e))"
  by (simp add: catch_def)

lemma catch_Inr [simp]: "catch (es, Inr x) h = (es, Inr x)"
  by (simp add: catch_def)

lemmas act_defs = ret_def throw_def emit_def

lemma fst_bnd: "fst (bnd m f) = fst m @ (case snd m of Inl e \<Rightarrow> [] | Inr x \<Rightarrow> fst (f x))"
  by (simp add: bnd_def split: sum.splits)

lemma snd_bnd: "snd (bnd m f) = (case snd m of Inl e \<Rightarrow> Inl e | Inr x \<Rightarrow> snd (f x))"
  by (simp add: bnd_def split: sum.splits)

section \<open>Which events a method can cause\<close>

lemma list_all_bnd:
  "list_all P (fst (bnd m f)) =
     (list_all P (fst m) \<and> (\<forall>x. snd m = Inr x \<longrightarrow> list_all P (fst (f x))))"
  by (cases m; cases "snd m") (auto simp: bnd_def)

lemma list_all_catch:
  "list_all P (fst (catch m h)) =
     (list_all P (fst m) \<and> (\<forall>e. snd m = Inl e \<longrightarrow> list_all P (fst (h e))))"
  by (cases m; cases "snd m") (auto simp: catch_def)

lemma isLocalOrAuth_mono: "isLocalOrAuth S ev \<Longrightarrow> S \<subseteq> T \<Longrightarrow> isLocalOrAuth T ev"
  by (cases ev) auto

lemma list_all_mono_auth:
  "list_all (isLocalOrAuth S) evs \<Longrightarrow> S \<subseteq> T \<Longrightarrow> list_all (isLocalOrAuth T) evs"
  by (induction evs) (auto intro: isLocalOrAuth_mono)

lemma local_readFile: "list_all (isLocalOrAuth S) (fst (readFileBase64 fs p))"
  by (simp add: readFileBase64_def act_defs split: jsval.splits option.splits)

lemma local_areCredsMissing: "list_all (isLocalOrAuth S) (fst (areCredsMissing c))"
  by (simp add: areCredsMissing_def act_defs)

lemma local_throwIf: "list_all (isLocalOrAuth S) (fst (throwIfFailureWithReasonDump au r))"
  by (simp add: throwIfFailureWithReasonDump_def act_defs)

lemma local_failedWithReason: "fst (failedWithReason r p) = []"
  by (simp add: failedWithReason_def startsWith_def act_defs split: jsval.splits)

lemma local_runningAsCI: "list_all (isLocalOrAuth S) (fst (runningAsCI w c))"
  by (simp add: runningAsCI_def Let_def list_all_bnd local_readFile act_defs)

lemma local_userProvidedOverride: "list_all (isLocalOrAuth S) (fst (userProvidedOverride w c choice))"
  by (simp add: userProvidedOverride_def list_all_bnd local_readFile act_defs)

lemma local_runningAsExpert: "list_all (isLocalOrAuth S) (fst (runningAsExpert w c))"
  by (simp add: runningAsExpert_def list_all_bnd local_userProvidedOverride act_defs)

lemma local_askForAppleCreds: "list_all (isLocalOrAuth S) (fst (askForAppleCreds w j))"
  by (simp add: askForAppleCreds_def list_all_bnd act_defs)

lemma auth_ensureAppExists:
  "list_all (isLocalOrAuth {EnsureAppIdLocally, CreateAppOnPortal}) (fst (ensureAppExists w c))"
  by (simp add: ensureAppExists_def list_all_bnd local_throwIf local_failedWithReason act_defs)

lemma auth_validateCredsEnsureAppExists:
  "list_all (isLocalOrAuth {ValidateCredentialsProduceTeamId, EnsureAppIdLocally, CreateAppOnPortal})
     (fst (validateCredsEnsureAppExists w c j))"
  by (simp add: validateCredsEnsureAppExists_def list_all_bnd local_throwIf local_askForAppleCreds
        list_all_mono_auth[OF auth_ensureAppExists] act_defs)

lemma auth_produceProvisionProfile:
  "list_all (isLocalOrAuth {ProduceProvisionProfile}) (fst (produceProvisionProfile w c))"
  by (simp add: produceProvisionProfile_def list_all_bnd local_throwIf local_failedWithReason act_defs)

lemma auth_expoManagedResource:
  "list_all (isLocalOrAuth {ProduceCerts, ProducePushCerts, ProduceProvisionProfile})
     (fst (expoManagedResource w c choice))"
  by (simp add: expoManagedResource_def list_all_bnd local_throwIf
        list_all_mono_auth[OF auth_produceProvisionProfile] act_defs)

lemma auth_runningAsExpoManaged:
  "list_all (isLocalOrAuth {ProduceCerts, ProducePushCerts, ProduceProvisionProfile})
     (fst (runningAsExpoManaged w c))"
  by (simp add: runningAsExpoManaged_def list_all_bnd auth_expoManagedResource
        local_userProvidedOverride act_defs)

section \<open>The commit of \<open>runLocalAuth\<close>\<close>

lemma local_not_mutation: "isLocalOrAuth S ev \<Longrightarrow> \<not> isMutation ev"
  by (cases ev) auto

lemma no_mutation:
  "list_all (isLocalOrAuth S) evs \<Longrightarrow> filter isMutation evs = []"
  by (induction evs) (auto dest: local_not_mutation)

lemma bnd_assoc: "bnd (bnd m f) g = bnd m (\<lambda>x. bnd (f x) g)"
  by (cases m; cases "snd m") (auto simp: bnd_def split: sum.splits)

lemma bnd_ret: "bnd (ret x) f = f x"
  by (simp add: ret_def prod_eq_iff)

lemma nm_runningAsCI: "filter isMutation (fst (runningAsCI w c)) = []"
  by (rule no_mutation[OF local_runningAsCI[of "{}"]])

lemma nm_areCredsMissing: "filter isMutation (fst (areCredsMissing c)) = []"
  by (rule no_mutation[OF local_areCredsMissing[of "{}"]])

lemma nm_validate: "filter isMutation (fst (validateCredsEnsureAppExists w c j)) = []"
  by (rule no_mutation[OF auth_validateCredsEnsureAppExists])

lemma nm_managed: "filter isMutation (fst (runningAsExpoManaged w c)) = []"
  by (rule no_mutation[OF auth_runningAsExpoManaged])

lemma nm_expert: "filter isMutation (fst (runningAsExpert w c)) = []"
  by (rule no_mutation[OF local_runningAsExpert[of "{}"]])

lemma filter_fst_bnd:
  "filter P (fst (bnd m f)) =
     filter P (fst m) @ (case snd m of Inl e \<Rightarrow> [] | Inr x \<Rightarrow> filter P (fst (f x)))"
  by (simp add: fst_bnd split: sum.splits)

lemma nm_interactive: "filter isMutation (fst (interactiveResolution w c)) = []"
  by (simp add: interactiveResolution_def filter_fst_bnd nm_validate nm_managed nm_expert act_defs
        split: sum.splits)

lemma runLocalAuth_branches:
  "runLocalAuth w md =
     bnd (emit (CredentialsExist md)) (\<lambda>_.
     bnd (case stored w of
            Some found \<Rightarrow> bnd (areCredsMissing found) (\<lambda>missing. ret (found, missing = []))
          | None \<Rightarrow> ret ([], False)) (\<lambda>(credsStarter, clientHasAllNeededCreds).
     if useCi (opts w) then
       bnd (runningAsCI w credsStarter) (\<lambda>c.
         bnd (areCredsMissing c) (\<lambda>_.
         bnd (updateCredentialsForPlatform w ''ios'' c md) (\<lambda>_.
         emit (Log Warn savedMessage))))
     else if \<not> clientHasAllNeededCreds then
       bnd (interactiveResolution w credsStarter) (\<lambda>c.
         bnd (areCredsMissing (obj_delete c ''result'')) (\<lambda>_.
         bnd (updateCredentialsForPlatform w ''ios'' (obj_delete c ''result'') md) (\<lambda>_.
         emit (Log Warn savedMessage))))
     else emit (Log Info ''Using existing credentials for this build'')))"
  unfolding runLocalAuth_def interactiveResolution_def
  by (simp only: bnd_assoc bnd_ret)

lemma commitBundle_fun:
  "commitBundle w md =
     (\<lambda>creds. bnd (areCredsMissing creds) (\<lambda>_.
        bnd (updateCredentialsForPlatform w ''ios'' creds md) (\<lambda>_. emit (Log Warn savedMessage))))"
  by (rule ext) (simp add: commitBundle_def)

lemma runLocalAuth_parts:
  "runLocalAuth w md = (lookupEvents w md @ fst (afterLookup w md), snd (afterLookup w md))"
proof (cases "stored w")
  case None
  then show ?thesis
    unfolding runLocalAuth_branches
    by (simp add: lookupEvents_def afterLookup_def foundBundle_def foundComplete_def
          commitBundle_fun emit_def ret_def)
next
  case (Some found)
  then show ?thesis
    unfolding runLocalAuth_branches
    by (simp add: lookupEvents_def afterLookup_def foundBundle_def foundComplete_def
          commitBundle_fun areCredsMissing_def emit_def ret_def)
qed

lemma updateCredentialsForPlatform_outcome:
  "updateCredentialsForPlatform w platform c md =
     ([UpdateCredentials platform c md],
      if update_ok w then Inr () else Inl (ServiceRejected ''updateCredentialsForPlatform''))"
  by (simp add: updateCredentialsForPlatform_def act_defs)

lemma commitBundle_outcome: "commitBundle w md b = (commitEvents w md b, commitResult w)"
  by (simp add: commitBundle_def commitEvents_def commitResult_def areCredsMissing_def
        missingMessage_def updateCredentialsForPlatform_outcome act_defs)

lemma afterLookup_resolution:
  "afterLookup w md =
     (if resolves w then bnd (resolution w) (commitBundle w md)
      else emit (Log Info ''Using existing credentials for this build''))"
  by (simp add: afterLookup_def resolves_def resolution_def bnd_assoc bnd_ret)

lemma runLocalAuth_outcome:
  "runLocalAuth w md =
     (if resolves w then
        (case snd (resolution w) of
           Inl e \<Rightarrow> (lookupEvents w md @ fst (resolution w), Inl e)
         | Inr b \<Rightarrow> (lookupEvents w md @ fst (resolution w) @ commitEvents w md b, commitResult w))
      else (lookupEvents w md @ [Log Info ''Using existing credentials for this build''], Inr ()))"
proof (cases "resolution w")
  case (Pair tr r)
  then show ?thesis
    unfolding runLocalAuth_parts afterLookup_resolution
    by (cases r) (simp_all add: commitBundle_outcome act_defs)
qed

lemma nm_lookup: "filter isMutation (lookupEvents w md) = []"
  by (simp add: lookupEvents_def nm_areCredsMissing split: option.splits)

lemma nm_resolution: "filter isMutation (fst (resolution w)) = []"
  by (simp add: resolution_def filter_fst_bnd nm_runningAsCI nm_interactive act_defs
        split: sum.splits)

lemma commitEvents_mutations:
  "filter isMutation (commitEvents w md b) = [UpdateCredentials ''ios'' b md]"
  by (simp add: commitEvents_def)

lemma runLocalAuth_mutations:
  "filter isMutation (fst (runLocalAuth w md)) =
     (if resolves w
      then (case snd (resolution w) of
              Inl e \<Rightarrow> []
            | Inr b \<Rightarrow> [UpdateCredentials ''ios'' b md])
      else [])"
  by (simp add: runLocalAuth_outcome nm_lookup nm_resolution commitEvents_mutations
        split: sum.splits)

section \<open>The run around \<open>runLocalAuth\<close>\<close>

lemma IOSBuilder_run_shape:
  assumes "truthy (bundleIdentifierIOS (info w))" and "opt_type (opts w) \<noteq> JStr ''simulator''"
  shows "IOSBuilder_run w =
     ([GetPublishInfo, CheckStatus]
        @ (if clearCredentials (opts w)
           then [RemoveCredentials ''ios'' (iosMetadata w), Log Warn ''Removed existing credentials'']
           else [])
        @ (if DEBUG (auth w)
           then [Auth DoFastlaneActionsExist, ConsoleLog (doFastlaneActionsExist_reply (auth w))]
           else [])
        @ [Auth PrepareLocalAuth]
        @ fst (runLocalAuth w (iosMetadata w))
        @ (case snd (runLocalAuth w (iosMetadata w)) of
             Inl e \<Rightarrow> Log Error ''Error while gathering & validating credentials''
                      # (if DEBUG (auth w) then [Log Error ''[debug] dump of the error''] else [])
           | Inr u \<Rightarrow> [EnsureReleaseExists ''ios'', Build ''ios'']),
      snd (runLocalAuth w (iosMetadata w)))"
proof (cases "runLocalAuth w (iosMetadata w)")
  case (Pair tr r)
  then show ?thesis using assms
    by (cases r) (simp_all add: IOSBuilder_run_def Let_def act_defs)
qed

lemma snd_bnd_isl: "isl (snd m) \<Longrightarrow> isl (snd (bnd m f))"
  by (cases m; cases "snd m") (auto simp: bnd_def)

lemma runningAsCI_reads:
  "runningAsCI w c =
     bnd (readFileBase64 (files w) (env_get (env w) ''EXP_PROVIONING_PROFILE_PATH'')) (\<lambda>profile.
     bnd (readFileBase64 (files w) (env_get (env w) ''EXP_DIST_CERTIFICATE_PATH'')) (\<lambda>cert.
     bnd (readFileBase64 (files w) (env_get (env w) ''EXP_PUSH_CERTIFICATE_PATH'')) (\<lambda>push.
     ret (copyOverAsString c
            [(''teamId'', env_get (env w) ''EXP_APPLE_TEAM_ID''),
             (''certP12'', cert),
             (''certPassword'', env_get (env w) ''EXP_DIST_CERTIFICATE_PASSWORD''),
             (''pushP12'', push),
             (''pushPassword'', env_get (env w) ''EXP_PUSH_CERTIFICATE_PASSWORD''),
             (''provisioningProfile'', profile)]))))"
  by (simp add: runningAsCI_def Let_def obj_get_def)

lemma readFile_unreadable:
  "\<not> envFileReadable w var \<Longrightarrow> isl (snd (readFileBase64 (files w) (env_get (env w) var)))"
  by (auto simp add: envFileReadable_def readFileBase64_def env_get_def act_defs split: option.splits)

lemma readFile_error:
  "\<not> envFileReadable w var \<Longrightarrow>
     snd (readFileBase64 (files w) (env_get (env w) var)) = Inl (readError w var)"
  by (auto simp add: envFileReadable_def readError_def readFileBase64_def env_get_def act_defs
        split: option.splits)

lemma readFile_readable:
  "envFileReadable w var \<Longrightarrow> \<exists>b. snd (readFileBase64 (files w) (env_get (env w) var)) = Inr b"
  by (auto simp add: envFileReadable_def readFileBase64_def env_get_def act_defs
        split: option.splits)

lemma runningAsCI_error:
  assumes "\<not> (envFileReadable w ''EXP_PROVIONING_PROFILE_PATH''
             \<and> envFileReadable w ''EXP_DIST_CERTIFICATE_PATH''
             \<and> envFileReadable w ''EXP_PUSH_CERTIFICATE_PATH'')"
  shows "snd (runningAsCI w c) = Inl (readError w (firstUnreadable w))"
proof -
  consider (profile) "\<not> envFileReadable w ''EXP_PROVIONING_PROFILE_PATH''"
    | (dist) "envFileReadable w ''EXP_PROVIONING_PROFILE_PATH''"
             "\<not> envFileReadable w ''EXP_DIST_CERTIFICATE_PATH''"
    | (push) "envFileReadable w ''EXP_PROVIONING_PROFILE_PATH''"
             "envFileReadable w ''EXP_DIST_CERTIFICATE_PATH''"
             "\<not> envFileReadable w ''EXP_PUSH_CERTIFICATE_PATH''"
    using assms by blast
  then show ?thesis
  proof cases
    case profile
    then show ?thesis
      unfolding runningAsCI_reads
      by (simp add: snd_bnd readFile_error firstUnreadable_def)
  next
    case dist
    from readFile_readable[OF dist(1)] readFile_error[OF dist(2)] dist show ?thesis
      unfolding runningAsCI_reads
      by (auto simp add: snd_bnd firstUnreadable_def)
  next
    case push
    from readFile_readable[OF push(1)] readFile_readable[OF push(2)] readFile_error[OF push(3)] push
    show ?thesis
      unfolding runningAsCI_reads
      by (auto simp add: snd_bnd firstUnreadable_def)
  qed
qed

lemma runLocalAuth_ci_error:
  assumes "useCi (opts w)"
      and "\<not> (envFileReadable w ''EXP_PROVIONING_PROFILE_PATH''
             \<and> envFileReadable w ''EXP_DIST_CERTIFICATE_PATH''
             \<and> envFileReadable w ''EXP_PUSH_CERTIFICATE_PATH'')"
  shows "snd (runLocalAuth w md) = Inl (readError w (firstUnreadable w))"
    and "filter isMutation (fst (runLocalAuth w md)) = []"
proof -
  have "snd (resolution w) = Inl (readError w (firstUnreadable w))"
    using assms(1) runningAsCI_error[OF assms(2)] by (simp add: resolution_def)
  then show "snd (runLocalAuth w md) = Inl (readError w (firstUnreadable w))"
    and "filter isMutation (fst (runLocalAuth w md)) = []"
    using assms(1)
    by (simp add: runLocalAuth_outcome resolves_def, simp add: runLocalAuth_mutations resolves_def)
qed

lemma no_mutation_no_upsert: "filter isMutation evs = [] \<Longrightarrow> filter isUpsert evs = []"
proof (induction evs)
  case Nil
  then show ?case by simp
next
  case (Cons ev evs)
  then show ?case by (cases ev) (simp_all split: if_splits)
qed

lemma quiet_readFile:
  "list_all (\<lambda>ev. \<not> isPrompt ev \<and> \<not> isManagedGeneration ev) (fst (readFileBase64 fs p))"
  by (simp add: readFileBase64_def act_defs split: jsval.splits option.splits)

lemma quiet_areCredsMissing:
  "list_all (\<lambda>ev. \<not> isPrompt ev \<and> \<not> isManagedGeneration ev) (fst (areCredsMissing c))"
  by (simp add: areCredsMissing_def act_defs)

lemma quiet_runningAsCI:
  "list_all (\<lambda>ev. \<not> isPrompt ev \<and> \<not> isManagedGeneration ev) (fst (runningAsCI w c))"
  by (simp add: runningAsCI_def Let_def list_all_bnd quiet_readFile act_defs)

lemma quiet_runLocalAuth:
  "useCi (opts w) \<Longrightarrow>
     list_all (\<lambda>ev. \<not> isPrompt ev \<and> \<not> isManagedGeneration ev) (fst (runLocalAuth w md))"
  by (simp add: runLocalAuth_def list_all_bnd quiet_runningAsCI quiet_areCredsMissing
        updateCredentialsForPlatform_def act_defs
        split: option.splits prod.splits)

lemma quiet_run:
  "useCi (opts w) \<Longrightarrow>
     list_all (\<lambda>ev. \<not> isPrompt ev \<and> \<not> isManagedGeneration ev) (fst (IOSBuilder_run w))"
  by (simp add: IOSBuilder_run_def Let_def list_all_bnd list_all_catch quiet_runLocalAuth act_defs)

lemma unreadable_no_upsert:
  assumes "useCi (opts w)"
      and "\<not> (envFileReadable w ''EXP_PROVIONING_PROFILE_PATH''
             \<and> envFileReadable w ''EXP_DIST_CERTIFICATE_PATH''
             \<and> envFileReadable w ''EXP_PUSH_CERTIFICATE_PATH'')"
  shows "filter isUpsert (fst (IOSBuilder_run w)) = []"
    and "truthy (bundleIdentifierIOS (info w)) \<Longrightarrow> opt_type (opts w) \<noteq> JStr ''simulator''
           \<Longrightarrow> snd (IOSBuilder_run w) = Inl (readError w (firstUnreadable w))"
proof -
  note fails = runLocalAuth_ci_error[OF assms, of "iosMetadata w"]
  have quiet: "filter isUpsert (fst (runLocalAuth w (iosMetadata w))) = []"
    using fails(2) by (rule no_mutation_no_upsert)
  show "filter isUpsert (fst (IOSBuilder_run w)) = []"
  proof (cases "truthy (bundleIdentifierIOS (info w)) \<and> opt_type (opts w) \<noteq> JStr ''simulator''")
    case True
    then show ?thesis
      using quiet by (simp add: IOSBuilder_run_shape split: sum.splits)
  next
    case False
    then show ?thesis
      by (auto simp add: IOSBuilder_run_def Let_def act_defs)
  qed
  show "snd (IOSBuilder_run w) = Inl (readError w (firstUnreadable w))"
    if "truthy (bundleIdentifierIOS (info w))" "opt_type (opts w) \<noteq> JStr ''simulator''"
    using that fails(1) by (simp add: IOSBuilder_run_shape)
qed

lemma run_mutations: "filter isMutation (fst (IOSBuilder_run w)) = runMutations w"
proof (cases "truthy (bundleIdentifierIOS (info w)) \<and> opt_type (opts w) \<noteq> JStr ''simulator''")
  case True
  then show ?thesis
    by (simp add: IOSBuilder_run_shape runLocalAuth_mutations runMutations_def
          split: sum.splits)
next
  case False
  then show ?thesis
    by (auto simp add: IOSBuilder_run_def runMutations_def Let_def act_defs)
qed

section \<open>A failed profile generation surfaces\<close>

lemma absent_auth:
  "list_all (isLocalOrAuth S) evs \<Longrightarrow> a \<notin> S \<Longrightarrow> Auth a \<notin> set evs"
  by (induction evs) auto

lemma lookupEvents_no_auth: "Auth a \<notin> set (lookupEvents w md)"
  using absent_auth[OF local_areCredsMissing[of "{}"], of a]
  by (simp add: lookupEvents_def split: option.splits)

lemma commitBundle_no_auth: "Auth a \<notin> set (fst (commitBundle w md c))"
  by (simp add: commitBundle_outcome commitEvents_def)

lemma surfaces_absent: "a \<notin> set (fst m) \<Longrightarrow> surfaces a h e m"
  by (simp add: surfaces_def)

lemma surfaces_after:
  assumes "a \<notin> set (fst m)" and "\<And>x. surfaces a h e (f x)"
  shows "surfaces a h e (bnd m f)"
proof (cases "snd m")
  case (Inl e')
  then show ?thesis using assms(1) by (cases m) (simp add: surfaces_def)
next
  case (Inr x)
  have "filter (\<lambda>ev. ev = a) (fst m) = []"
    using assms(1) by (induction "fst m") (auto simp: filter_empty_conv)
  then show ?thesis using Inr assms(1) assms(2)[of x]
    by (cases m) (auto simp add: surfaces_def)
qed

lemma surfaces_before:
  assumes "surfaces a h e m" and "\<And>x. a \<notin> set (fst (f x))"
  shows "surfaces a h e (bnd m f)"
proof (cases "snd m")
  case (Inl e')
  then show ?thesis using assms(1) by (cases m) (simp add: surfaces_def)
next
  case (Inr x)
  then have "a \<notin> set (fst m)"
    using assms(1) by (auto simp: surfaces_def)
  then show ?thesis using Inr assms(2)[of x]
    by (cases m) (auto simp add: surfaces_def)
qed

lemma surfaces_prefix:
  assumes "surfaces a h e m" and "a \<notin> set es"
  shows "surfaces a h e (es @ fst m, snd m)"
proof -
  have "filter (\<lambda>ev. ev = a) es = []"
    using assms(2) by (auto simp: filter_empty_conv)
  then show ?thesis using assms by (auto simp: surfaces_def)
qed

lemma produceProvisionProfile_multiple:
  assumes "obj_get (produceProvisionProfile_reply (auth w)) ''result'' = JStr ''failure''"
      and "obj_get (produceProvisionProfile_reply (auth w)) ''reason'' = JStr r"
      and "take (length (MULTIPLE_PROFILES (auth w))) r = MULTIPLE_PROFILES (auth w)"
  shows "produceProvisionProfile w c =
     ([Auth ProduceProvisionProfile, Log Warn removeProfileHint]
       @ (if DEBUG (auth w) then [ConsoleLog (JObj (produceProvisionProfile_reply (auth w)))] else []),
      Inl (ReasonDump (JStr r) (obj_get (produceProvisionProfile_reply (auth w)) ''rawDump'')))"
  using assms
  by (simp add: produceProvisionProfile_def failedWithReason_def startsWith_def
        throwIfFailureWithReasonDump_def removeProfileHint_def act_defs)

lemma auth_expoManagedResource_cert:
  "choice \<noteq> ''provisioningProfile'' \<Longrightarrow>
   list_all (isLocalOrAuth {ProduceCerts, ProducePushCerts}) (fst (expoManagedResource w c choice))"
  by (simp add: expoManagedResource_def list_all_bnd local_throwIf act_defs)

lemma expoManagedResource_profile:
  "expoManagedResource w c ''provisioningProfile'' = produceProvisionProfile w c"
  by (simp add: expoManagedResource_def)

lemma runningAsExpoManaged_steps:
  "runningAsExpoManaged w c =
     bnd (emit (Prompt ''distCert'')) (\<lambda>_.
     bnd (emit (Prompt ''pushCert'')) (\<lambda>_.
     bnd (if ans_distCert (oper w) then expoManagedResource w c ''distCert''
          else userProvidedOverride w c ''distCert'') (\<lambda>c1.
     bnd (if ans_pushCert (oper w) then expoManagedResource w c1 ''pushCert''
          else userProvidedOverride w c1 ''pushCert'') (\<lambda>c2.
     bnd (produceProvisionProfile w c2) ret))))"
  by (simp add: runningAsExpoManaged_def expoManagedResource_profile cong: if_cong)

lemma cert_step_no_profile_call:
  assumes "choice \<noteq> ''provisioningProfile''"
  shows "Auth ProduceProvisionProfile \<notin>
           set (fst (if managed then expoManagedResource w c choice
                     else userProvidedOverride w c choice))"
  using absent_auth[OF auth_expoManagedResource_cert[OF assms], of ProduceProvisionProfile w c]
        absent_auth[OF local_userProvidedOverride[of "{}"], of ProduceProvisionProfile w c choice]
  by simp

lemma surfaces_managed:
  assumes "obj_get (produceProvisionProfile_reply (auth w)) ''result'' = JStr ''failure''"
      and "obj_get (produceProvisionProfile_reply (auth w)) ''reason'' = JStr r"
      and "take (length (MULTIPLE_PROFILES (auth w))) r = MULTIPLE_PROFILES (auth w)"
  shows "surfaces (Auth ProduceProvisionProfile) (Log Warn removeProfileHint)
           (ReasonDump (JStr r) (obj_get (produceProvisionProfile_reply (auth w)) ''rawDump''))
           (runningAsExpoManaged w c)"
proof -
  let ?e = "ReasonDump (JStr r) (obj_get (produceProvisionProfile_reply (auth w)) ''rawDump'')"
  have last: "surfaces (Auth ProduceProvisionProfile) (Log Warn removeProfileHint) ?e
                (bnd (produceProvisionProfile w c') ret)" for c'
    by (simp add: produceProvisionProfile_multiple[OF assms] surfaces_def)
  show ?thesis
    unfolding runningAsExpoManaged_steps
    by (intro surfaces_after cert_step_no_profile_call last) (simp_all add: act_defs)
qed

lemma surfaces_interactive:
  assumes "obj_get (produceProvisionProfile_reply (auth w)) ''result'' = JStr ''failure''"
      and "obj_get (produceProvisionProfile_reply (auth w)) ''reason'' = JStr r"
      and "take (length (MULTIPLE_PROFILES (auth w))) r = MULTIPLE_PROFILES (auth w)"
  shows "surfaces (Auth ProduceProvisionProfile) (Log Warn removeProfileHint)
           (ReasonDump (JStr r) (obj_get (produceProvisionProfile_reply (auth w)) ''rawDump''))
           (interactiveResolution w c)"
proof -
  let ?e = "ReasonDump (JStr r) (obj_get (produceProvisionProfile_reply (auth w)) ''rawDump'')"
  have validate: "Auth ProduceProvisionProfile \<notin> set (fst (validateCredsEnsureAppExists w c j))" for j
    using absent_auth[OF auth_validateCredsEnsureAppExists, of ProduceProvisionProfile] by simp
  have expert: "Auth ProduceProvisionProfile \<notin> set (fst (runningAsExpert w c'))" for c'
    using absent_auth[OF local_runningAsExpert[of "{}"], of ProduceProvisionProfile] by simp
  have resolve: "surfaces (Auth ProduceProvisionProfile) (Log Warn removeProfileHint) ?e
                   (if ans_isExpoManaged (oper w) then runningAsExpoManaged w c'
                    else runningAsExpert w c')" for c'
    using surfaces_managed[OF assms] surfaces_absent[OF expert] by simp
  show ?thesis
    unfolding interactiveResolution_def
    by (intro surfaces_after validate surfaces_before resolve) (simp_all add: act_defs)
qed

lemma surfaces_runLocalAuth:
  assumes "obj_get (produceProvisionProfile_reply (auth w)) ''result'' = JStr ''failure''"
      and "obj_get (produceProvisionProfile_reply (auth w)) ''reason'' = JStr r"
      and "take (length (MULTIPLE_PROFILES (auth w))) r = MULTIPLE_PROFILES (auth w)"
  shows "surfaces (Auth ProduceProvisionProfile) (Log Warn removeProfileHint)
           (ReasonDump (JStr r) (obj_get (produceProvisionProfile_reply (auth w)) ''rawDump''))
           (runLocalAuth w md)"
proof -
  let ?e = "ReasonDump (JStr r) (obj_get (produceProvisionProfile_reply (auth w)) ''rawDump'')"
  have ci: "Auth ProduceProvisionProfile \<notin> set (fst (runningAsCI w c))" for c
    using absent_auth[OF local_runningAsCI[of "{}"], of ProduceProvisionProfile] by simp
  have viaCI: "surfaces (Auth ProduceProvisionProfile) (Log Warn removeProfileHint) ?e
                 (bnd (runningAsCI w c) (commitBundle w md))" for c
    by (intro surfaces_after ci surfaces_absent commitBundle_no_auth)
  have viaOperator: "surfaces (Auth ProduceProvisionProfile) (Log Warn removeProfileHint) ?e
        (bnd (interactiveResolution w c) (\<lambda>c. commitBundle w md (obj_delete c ''result'')))" for c
    by (intro surfaces_before surfaces_interactive[OF assms] commitBundle_no_auth)
  have "surfaces (Auth ProduceProvisionProfile) (Log Warn removeProfileHint) ?e (afterLookup w md)"
    unfolding afterLookup_def using viaCI viaOperator
    by (simp add: surfaces_def act_defs)
  then show ?thesis
    unfolding runLocalAuth_parts
    by (rule surfaces_prefix) (rule lookupEvents_no_auth)
qed

lemma surfaces_run:
  assumes "obj_get (produceProvisionProfile_reply (auth w)) ''result'' = JStr ''failure''"
      and "obj_get (produceProvisionProfile_reply (auth w)) ''reason'' = JStr r"
      and "take (length (MULTIPLE_PROFILES (auth w))) r = MULTIPLE_PROFILES (auth w)"
  shows "surfaces (Auth ProduceProvisionProfile) (Log Warn removeProfileHint)
           (ReasonDump (JStr r) (obj_get (produceProvisionProfile_reply (auth w)) ''rawDump''))
           (IOSBuilder_run w)"
proof (cases "truthy (bundleIdentifierIOS (info w)) \<and> opt_type (opts w) \<noteq> JStr ''simulator''")
  case True
  show ?thesis
    using surfaces_runLocalAuth[OF assms, of "iosMetadata w"] True
    by (auto simp add: IOSBuilder_run_shape surfaces_def split: sum.splits)
next
  case False
  then show ?thesis
    by (auto simp add: IOSBuilder_run_def Let_def surfaces_def act_defs)
qed

section \<open>The app is looked up and created at most once\<close>












section \<open>Claims about the batch iOS builder\<close>

text \<open>
  C1, as the code has it. In CI mode (\<open>useCi\<close>) a run puts no question to the operator and
  calls no managed generation. When one of the three file variables
  (\<open>EXP_PROVIONING_PROFILE_PATH\<close>, \<open>EXP_DIST_CERTIFICATE_PATH\<close>,
  \<open>EXP_PUSH_CERTIFICATE_PATH\<close>) is unset or names no readable file, the run issues no
  update call, and, unless it is a simulator build or has no bundle identifier, it ends
  with the exception of the first read that fails, in the order profile, distribution
  certificate, push certificate: the type error of \<open>fs.readFile\<close> for a variable that is
  not set, its file error for a path that cannot be read. That exception is not the
  \<open>INVALID_OPTIONS\<close> error of the builder.
\<close>

theorem ci_mode_asks_nothing_and_needs_its_files:
  assumes "useCi (opts w)"
  shows "list_all (\<lambda>ev. \<not> isPrompt ev \<and> \<not> isManagedGeneration ev) (fst (IOSBuilder_run w))
       \<and> (\<not> (envFileReadable w ''EXP_PROVIONING_PROFILE_PATH''
              \<and> envFileReadable w ''EXP_DIST_CERTIFICATE_PATH''
              \<and> envFileReadable w ''EXP_PUSH_CERTIFICATE_PATH'') \<longrightarrow>
            filter isUpsert (fst (IOSBuilder_run w)) = []
          \<and> readError w (firstUnreadable w) \<noteq> INVALID_OPTIONS
          \<and> (truthy (bundleIdentifierIOS (info w)) \<and> opt_type (opts w) \<noteq> JStr ''simulator''
               \<longrightarrow> snd (IOSBuilder_run w) = Inl (readError w (firstUnreadable w))))"
proof -
  have "readError w (firstUnreadable w) \<noteq> INVALID_OPTIONS"
    by (simp add: readError_def split: option.splits)
  then show ?thesis
    using quiet_run[OF assms] unreadable_no_upsert[OF assms] by blast
qed

theorem ci_mode_asks_nothing_and_needs_its_files_witness:
  "useCi (opts wNoDistPath)
   \<and> \<not> envFileReadable wNoDistPath ''EXP_DIST_CERTIFICATE_PATH''
   \<and> truthy (bundleIdentifierIOS (info wNoDistPath))
   \<and> opt_type (opts wNoDistPath) \<noteq> JStr ''simulator''
   \<and> list_all (\<lambda>ev. \<not> isPrompt ev \<and> \<not> isManagedGeneration ev) (fst (IOSBuilder_run wNoDistPath))
   \<and> filter isUpsert (fst (IOSBuilder_run wNoDistPath)) = []
   \<and> snd (IOSBuilder_run wNoDistPath) = Inl (TypeError ''path must be a string or Buffer'')
   \<and> useCi (opts wPushUnreadable)
   \<and> \<not> envFileReadable wPushUnreadable ''EXP_PUSH_CERTIFICATE_PATH''
   \<and> filter isUpsert (fst (IOSBuilder_run wPushUnreadable)) = []
   \<and> snd (IOSBuilder_run wPushUnreadable) = Inl (FileError (JStr ''/gone.p12''))"
proof -
  have ci: "useCi (opts wNoDistPath)" "useCi (opts wPushUnreadable)"
    by code_simp+
  have unreadable: "\<not> envFileReadable wNoDistPath ''EXP_DIST_CERTIFICATE_PATH''"
                   "\<not> envFileReadable wPushUnreadable ''EXP_PUSH_CERTIFICATE_PATH''"
    by code_simp+
  have real: "truthy (bundleIdentifierIOS (info wNoDistPath))"
             "opt_type (opts wNoDistPath) \<noteq> JStr ''simulator''"
             "truthy (bundleIdentifierIOS (info wPushUnreadable))"
             "opt_type (opts wPushUnreadable) \<noteq> JStr ''simulator''"
    by code_simp+
  have failure:
    "readError wNoDistPath (firstUnreadable wNoDistPath) = TypeError ''path must be a string or Buffer''"
    "readError wPushUnreadable (firstUnreadable wPushUnreadable) = FileError (JStr ''/gone.p12'')"
    by code_simp+
  show ?thesis
    using ci unreadable real failure
          ci_mode_asks_nothing_and_needs_its_files[OF ci(1)]
          ci_mode_asks_nothing_and_needs_its_files[OF ci(2)]
    by simp
qed

text \<open>
  C1 as stated fails: in CI mode with \<open>EXP_APPLE_TEAM_ID\<close> unset (the three files given and
  readable) the run raises nothing and commits the bundle, with \<open>teamId\<close> undefined.
\<close>

theorem ci_mode_commits_without_team_id:
  "useCi (opts wCI) \<and> env wCI ''EXP_APPLE_TEAM_ID'' = None
   \<and> IOSBuilder_run wCI =
     ([GetPublishInfo, CheckStatus, Auth PrepareLocalAuth, CredentialsExist iosMetadata0,
       ReadFile (JStr ''/app.mobileprovision''), ReadFile (JStr ''/dist.p12''),
       ReadFile (JStr ''/push.p12''),
       UpdateCredentials ''ios''
         [(''teamId'', JUndefined), (''certP12'', JStr ''Q0VSVA==''),
          (''certPassword'', JStr ''pw1''), (''pushP12'', JStr ''UFVTSA==''),
          (''pushPassword'', JStr ''pw2''), (''provisioningProfile'', JStr ''UFJPRg=='')]
         iosMetadata0,
       Log Warn savedMessage, EnsureReleaseExists ''ios'', Build ''ios''],
      Inr ())"
  by code_simp

text \<open>
  C2, as the code has it. The update call is not gated by the six obligatory keys.
  \<open>runLocalAuth\<close> resolves a bundle in CI mode or when an obligatory key is missing from
  what is stored, and then
  \<^item> if resolution returned a bundle, checks the six keys, which only adds a warning when
    some are missing, and issues the update call with the bundle as it is; the run then
    ends with the outcome of that call, which may reject;
  \<^item> if resolution threw, ends with that exception and has issued no update call;
  \<^item> if nothing had to be resolved, only logs that the stored credentials are used.
  Lookup and resolution change nothing in the store. In a whole run of the builder the
  calls that change the store are the removal asked for by \<open>clearCredentials\<close>, which
  comes first and also happens in a run that fails later, and then that one update call.
\<close>

theorem upsert_follows_resolution_and_is_not_gated:
  "(resolves w \<and> snd (resolution w) = Inr b \<longrightarrow>
      runLocalAuth w md =
        (lookupEvents w md @ fst (resolution w) @ commitEvents w md b, commitResult w)
      \<and> UpdateCredentials ''ios'' b md \<in> set (fst (runLocalAuth w md))
      \<and> (credsMissing b \<noteq> [] \<longrightarrow>
           Log Warn (missingMessage b) \<in> set (fst (runLocalAuth w md))))
   \<and> (resolves w \<and> snd (resolution w) = Inl e \<longrightarrow>
        runLocalAuth w md = (lookupEvents w md @ fst (resolution w), Inl e))
   \<and> (\<not> resolves w \<longrightarrow>
        runLocalAuth w md =
          (lookupEvents w md @ [Log Info ''Using existing credentials for this build''], Inr ()))
   \<and> filter isMutation (lookupEvents w md) = []
   \<and> filter isMutation (fst (resolution w)) = []
   \<and> filter isMutation (commitEvents w md b) = [UpdateCredentials ''ios'' b md]
   \<and> filter isMutation (fst (IOSBuilder_run w)) = runMutations w
   \<and> (truthy (bundleIdentifierIOS (info w)) \<and> opt_type (opts w) \<noteq> JStr ''simulator'' \<longrightarrow>
        snd (IOSBuilder_run w) = snd (runLocalAuth w (iosMetadata w)))"
proof (intro conjI impI)
  assume resolved: "resolves w \<and> snd (resolution w) = Inr b"
  then show run: "runLocalAuth w md =
        (lookupEvents w md @ fst (resolution w) @ commitEvents w md b, commitResult w)"
    by (simp add: runLocalAuth_outcome)
  show "UpdateCredentials ''ios'' b md \<in> set (fst (runLocalAuth w md))"
    unfolding run by (simp add: commitEvents_def)
  show "Log Warn (missingMessage b) \<in> set (fst (runLocalAuth w md))" if "credsMissing b \<noteq> []"
    unfolding run using that by (simp add: commitEvents_def)
next
  assume "resolves w \<and> snd (resolution w) = Inl e"
  then show "runLocalAuth w md = (lookupEvents w md @ fst (resolution w), Inl e)"
    by (simp add: runLocalAuth_outcome)
next
  assume "\<not> resolves w"
  then show "runLocalAuth w md =
          (lookupEvents w md @ [Log Info ''Using existing credentials for this build''], Inr ())"
    by (simp add: runLocalAuth_outcome)
next
  show "filter isMutation (lookupEvents w md) = []"
    by (rule nm_lookup)
  show "filter isMutation (fst (resolution w)) = []"
    by (rule nm_resolution)
  show "filter isMutation (commitEvents w md b) = [UpdateCredentials ''ios'' b md]"
    by (rule commitEvents_mutations)
  show "filter isMutation (fst (IOSBuilder_run w)) = runMutations w"
    by (rule run_mutations)
next
  assume "truthy (bundleIdentifierIOS (info w)) \<and> opt_type (opts w) \<noteq> JStr ''simulator''"
  then show "snd (IOSBuilder_run w) = snd (runLocalAuth w (iosMetadata w))"
    by (simp add: IOSBuilder_run_shape)
qed

theorem upsert_follows_resolution_and_is_not_gated_witness:
  "resolves wManagedGap \<and> snd (resolution wManagedGap) = Inr gapBundle
   \<and> credsMissing gapBundle = [''certP12'', ''certPassword'']
   \<and> runLocalAuth wManagedGap iosMetadata0 =
       (lookupEvents wManagedGap iosMetadata0 @ fst (resolution wManagedGap)
          @ commitEvents wManagedGap iosMetadata0 gapBundle,
        Inr ())
   \<and> UpdateCredentials ''ios'' gapBundle iosMetadata0
       \<in> set (fst (runLocalAuth wManagedGap iosMetadata0))
   \<and> Log Warn (missingMessage gapBundle) \<in> set (fst (runLocalAuth wManagedGap iosMetadata0))
   \<and> filter isMutation (fst (IOSBuilder_run wManagedGap))
       = [UpdateCredentials ''ios'' gapBundle iosMetadata0]
   \<and> snd (IOSBuilder_run wManagedGap) = Inr ()
   \<and> resolves wUpdateRejected \<and> snd (resolution wUpdateRejected) = Inr gapBundle
   \<and> filter isMutation (fst (IOSBuilder_run wUpdateRejected))
       = [UpdateCredentials ''ios'' gapBundle iosMetadata0]
   \<and> snd (IOSBuilder_run wUpdateRejected) = Inl (ServiceRejected ''updateCredentialsForPlatform'')
   \<and> resolves wProfileRejected
   \<and> snd (resolution wProfileRejected)
       = Inl (ReasonDump (JStr ''Multiple profiles found with the name App'') JNull)
   \<and> runLocalAuth wProfileRejected iosMetadata0 =
       (lookupEvents wProfileRejected iosMetadata0 @ fst (resolution wProfileRejected),
        Inl (ReasonDump (JStr ''Multiple profiles found with the name App'') JNull))
   \<and> filter isMutation (fst (IOSBuilder_run wProfileRejected)) = []
   \<and> filter isMutation (fst (IOSBuilder_run wClearRejected))
       = [RemoveCredentials ''ios'' iosMetadata0]
   \<and> \<not> resolves wComplete
   \<and> runLocalAuth wComplete iosMetadata0 =
       ([CredentialsExist iosMetadata0, Log Info ''Using existing credentials for this build''],
        Inr ())"
proof -
  have gap: "resolves wManagedGap" "snd (resolution wManagedGap) = Inr gapBundle"
            "credsMissing gapBundle = [''certP12'', ''certPassword'']"
            "commitResult wManagedGap = Inr ()"
            "runMutations wManagedGap = [UpdateCredentials ''ios'' gapBundle iosMetadata0]"
            "iosMetadata wManagedGap = iosMetadata0"
            "truthy (bundleIdentifierIOS (info wManagedGap))"
            "opt_type (opts wManagedGap) \<noteq> JStr ''simulator''"
    by code_simp+
  have rejected: "resolves wUpdateRejected" "snd (resolution wUpdateRejected) = Inr gapBundle"
            "commitResult wUpdateRejected = Inl (ServiceRejected ''updateCredentialsForPlatform'')"
            "runMutations wUpdateRejected = [UpdateCredentials ''ios'' gapBundle iosMetadata0]"
            "iosMetadata wUpdateRejected = iosMetadata0"
            "truthy (bundleIdentifierIOS (info wUpdateRejected))"
            "opt_type (opts wUpdateRejected) \<noteq> JStr ''simulator''"
    by code_simp+
  have failed: "resolves wProfileRejected"
            "snd (resolution wProfileRejected)
               = Inl (ReasonDump (JStr ''Multiple profiles found with the name App'') JNull)"
            "runMutations wProfileRejected = []"
            "runMutations wClearRejected = [RemoveCredentials ''ios'' iosMetadata0]"
    by code_simp+
  have complete: "\<not> resolves wComplete"
            "lookupEvents wComplete iosMetadata0 = [CredentialsExist iosMetadata0]"
    by code_simp+
  note managed = upsert_follows_resolution_and_is_not_gated
                   [of wManagedGap gapBundle iosMetadata0 INVALID_OPTIONS]
  note refused = upsert_follows_resolution_and_is_not_gated
                   [of wUpdateRejected gapBundle iosMetadata0 INVALID_OPTIONS]
  note thrown = upsert_follows_resolution_and_is_not_gated
                   [of wProfileRejected "[]" iosMetadata0
                      "ReasonDump (JStr ''Multiple profiles found with the name App'') JNull"]
  note cleared = upsert_follows_resolution_and_is_not_gated
                   [of wClearRejected "[]" iosMetadata0 INVALID_OPTIONS]
  note stored = upsert_follows_resolution_and_is_not_gated
                   [of wComplete "[]" iosMetadata0 INVALID_OPTIONS]
  have first: "runLocalAuth wManagedGap iosMetadata0 =
       (lookupEvents wManagedGap iosMetadata0 @ fst (resolution wManagedGap)
          @ commitEvents wManagedGap iosMetadata0 gapBundle,
        Inr ())"
    using managed gap by simp
  have missing: "credsMissing gapBundle \<noteq> []"
    using gap(3) by simp
  have issued: "UpdateCredentials ''ios'' gapBundle iosMetadata0
         \<in> set (fst (runLocalAuth wManagedGap iosMetadata0))"
      "Log Warn (missingMessage gapBundle) \<in> set (fst (runLocalAuth wManagedGap iosMetadata0))"
    using managed gap(1,2) missing by blast+
  have firstRun: "filter isMutation (fst (IOSBuilder_run wManagedGap))
                    = [UpdateCredentials ''ios'' gapBundle iosMetadata0]"
                 "snd (IOSBuilder_run wManagedGap) = Inr ()"
    using managed gap by simp_all
  have second: "filter isMutation (fst (IOSBuilder_run wUpdateRejected))
                    = [UpdateCredentials ''ios'' gapBundle iosMetadata0]"
               "snd (IOSBuilder_run wUpdateRejected)
                    = Inl (ServiceRejected ''updateCredentialsForPlatform'')"
    using refused rejected by simp_all
  have third: "runLocalAuth wProfileRejected iosMetadata0 =
       (lookupEvents wProfileRejected iosMetadata0 @ fst (resolution wProfileRejected),
        Inl (ReasonDump (JStr ''Multiple profiles found with the name App'') JNull))"
       "filter isMutation (fst (IOSBuilder_run wProfileRejected)) = []"
    using thrown failed by simp_all
  have fourth: "filter isMutation (fst (IOSBuilder_run wClearRejected))
                  = [RemoveCredentials ''ios'' iosMetadata0]"
    using cleared failed by simp
  have fifth: "runLocalAuth wComplete iosMetadata0 =
       ([CredentialsExist iosMetadata0, Log Info ''Using existing credentials for this build''],
        Inr ())"
    using stored complete by simp
  show ?thesis
    using gap(1,2,3) rejected(1,2) failed(1,2) complete(1) first issued firstRun second third fourth
          fifth
    by blast
qed

text \<open>
  C2 as stated fails: when the reply of the certificate generation carries no
  \<open>certP12\<close> and \<open>certPassword\<close>, the run warns that these are missing and upserts the
  bundle without them.
\<close>

theorem incomplete_bundle_is_upserted:
  "credsMissing [(''teamId'', JStr ''TEAM1''), (''pushP12'', JStr ''UFVTSA==''),
                 (''pushPassword'', JStr ''pw2''), (''provisioningProfile'', JStr ''UFJPRg=='')]
     = [''certP12'', ''certPassword'']
   \<and> runLocalAuth wManagedGap iosMetadata0 =
     ([CredentialsExist iosMetadata0, Prompt ''isExpoManaged'',
       ConsoleLog (JStr ''We need your Apple ID/password to manage certificates and provisioning profiles''),
       Prompt ''appleId'', Prompt ''password'', Log Info ''Validating Credentials...'',
       Auth ValidateCredentialsProduceTeamId, Auth EnsureAppIdLocally,
       Prompt ''distCert'', Prompt ''pushCert'', Auth ProduceCerts, Auth ProducePushCerts,
       Auth ProduceProvisionProfile,
       Log Warn ''We do not have some credentials for you, certP12,certPassword'',
       UpdateCredentials ''ios''
         [(''teamId'', JStr ''TEAM1''), (''pushP12'', JStr ''UFVTSA==''),
          (''pushPassword'', JStr ''pw2''), (''provisioningProfile'', JStr ''UFJPRg=='')]
         iosMetadata0,
       Log Warn savedMessage],
      Inr ())"
  by code_simp




text \<open>
  C6. When the generation of the provisioning profile fails with a reason that starts with
  \<open>MULTIPLE_PROFILES\<close>, \<open>produceProvisionProfile\<close> calls the generation once, logs the hint
  to remove the existing profile, and throws the failure with its reason and raw dump.
  In a whole run the failure surfaces: if the run reaches the generation, it calls it
  exactly once, logs the hint and ends with that exception.
\<close>

theorem multiple_profiles_failure_is_terminal:
  assumes "obj_get (produceProvisionProfile_reply (auth w)) ''result'' = JStr ''failure''"
      and "obj_get (produceProvisionProfile_reply (auth w)) ''reason'' = JStr r"
      and "take (length (MULTIPLE_PROFILES (auth w))) r = MULTIPLE_PROFILES (auth w)"
  shows "produceProvisionProfile w c =
           ([Auth ProduceProvisionProfile, Log Warn removeProfileHint]
              @ (if DEBUG (auth w)
                 then [ConsoleLog (JObj (produceProvisionProfile_reply (auth w)))] else []),
            Inl (ReasonDump (JStr r) (obj_get (produceProvisionProfile_reply (auth w)) ''rawDump'')))
       \<and> surfaces (Auth ProduceProvisionProfile) (Log Warn removeProfileHint)
           (ReasonDump (JStr r) (obj_get (produceProvisionProfile_reply (auth w)) ''rawDump''))
           (IOSBuilder_run w)"
  using produceProvisionProfile_multiple[OF assms] surfaces_run[OF assms] by simp

theorem multiple_profiles_failure_is_terminal_witness:
  "obj_get (produceProvisionProfile_reply (auth wProfileRejected)) ''result'' = JStr ''failure''
   \<and> Auth ProduceProvisionProfile \<in> set (fst (IOSBuilder_run wProfileRejected))
   \<and> snd (IOSBuilder_run wProfileRejected) =
       Inl (ReasonDump (JStr ''Multiple profiles found with the name App'') JNull)
   \<and> Log Warn removeProfileHint \<in> set (fst (IOSBuilder_run wProfileRejected))
   \<and> length (filter (\<lambda>ev. ev = Auth ProduceProvisionProfile) (fst (IOSBuilder_run wProfileRejected))) = 1"
proof -
  have rejected:
      "obj_get (produceProvisionProfile_reply (auth wProfileRejected)) ''result'' = JStr ''failure''"
      "obj_get (produceProvisionProfile_reply (auth wProfileRejected)) ''reason''
         = JStr ''Multiple profiles found with the name App''"
      "take (length (MULTIPLE_PROFILES (auth wProfileRejected)))
            ''Multiple profiles found with the name App''
         = MULTIPLE_PROFILES (auth wProfileRejected)"
    by code_simp+
  have dump: "obj_get (produceProvisionProfile_reply (auth wProfileRejected)) ''rawDump'' = JNull"
    by code_simp
  have reached: "Auth ProduceProvisionProfile \<in> set (fst (IOSBuilder_run wProfileRejected))"
    by code_simp
  show ?thesis
    using multiple_profiles_failure_is_terminal[OF rejected, of "[]"] rejected(1) dump reached
    unfolding surfaces_def by simp
qed

section \<open>Missing bundle identifier, simulator builds\<close>

text \<open>
  C7. When the project has no bundle identifier (\<open>undefined\<close>, \<open>null\<close> or the empty
  string), both versions of the iOS builder read the project metadata and throw
  \<open>INVALID_OPTIONS\<close>: no build-status check, no call of the credentials service and no
  other network call is made.
\<close>

theorem missing_bundle_identifier_is_fatal_before_network:
  assumes "\<not> truthy (bundleIdentifierIOS (info w))"
  shows "IOSBuilder_run w = ([GetPublishInfo], Inl INVALID_OPTIONS)
       \<and> IOSBuilder2_run w = ([GetPublishInfo], Inl INVALID_OPTIONS)
       \<and> filter isNetworkCall (fst (IOSBuilder_run w)) = []
       \<and> filter isNetworkCall (fst (IOSBuilder2_run w)) = []"
  using assms by (simp add: IOSBuilder_run_def IOSBuilder2_run_def act_defs)

theorem missing_bundle_identifier_is_fatal_before_network_witness:
  "\<not> truthy (bundleIdentifierIOS (info wNoBundleIdentifier))
   \<and> IOSBuilder_run wNoBundleIdentifier = ([GetPublishInfo], Inl INVALID_OPTIONS)
   \<and> IOSBuilder2_run wNoBundleIdentifier = ([GetPublishInfo], Inl INVALID_OPTIONS)"
proof -
  have missing: "\<not> truthy (bundleIdentifierIOS (info wNoBundleIdentifier))"
    by code_simp
  show ?thesis
    using missing_bundle_identifier_is_fatal_before_network[OF missing] missing by blast
qed

text \<open>
  C9, as the code has it. In a simulator build neither version of the iOS builder fetches,
  resolves, validates or upserts credentials. The one credential call the first version
  can still make is the removal asked for by \<open>clearCredentials\<close>, which it makes before it
  looks at the build type.
\<close>

theorem simulator_build_skips_credentials:
  assumes "opt_type (opts w) = JStr ''simulator''"
  shows "filter isCredentialEvent (fst (IOSBuilder_run w)) =
           (if truthy (bundleIdentifierIOS (info w)) \<and> clearCredentials (opts w)
            then [RemoveCredentials ''ios'' (iosMetadata w)] else [])
       \<and> filter isCredentialEvent (fst (IOSBuilder2_run w)) = []"
  using assms by (simp add: IOSBuilder_run_def IOSBuilder2_run_def Let_def act_defs)

theorem simulator_build_skips_credentials_witness:
  "opt_type (opts wSimulatorClear) = JStr ''simulator''
   \<and> filter isCredentialEvent (fst (IOSBuilder_run wSimulatorClear)) =
       [RemoveCredentials ''ios'' iosMetadata0]
   \<and> filter isCredentialEvent (fst (IOSBuilder2_run wSimulatorClear)) = []"
proof -
  have sim: "opt_type (opts wSimulatorClear) = JStr ''simulator''"
    by code_simp
  have "truthy (bundleIdentifierIOS (info wSimulatorClear)) \<and> clearCredentials (opts wSimulatorClear)
        \<and> iosMetadata wSimulatorClear = iosMetadata0"
    by code_simp
  then show ?thesis
    using simulator_build_skips_credentials[OF sim] sim by simp
qed

text \<open>
  C9 as stated fails: a simulator build with \<open>clearCredentials\<close> set removes the stored
  credentials.
\<close>

theorem simulator_build_removes_credentials:
  "opt_type (opts wSimulatorClear) = JStr ''simulator''
   \<and> IOSBuilder_run wSimulatorClear =
       ([GetPublishInfo, CheckStatus, RemoveCredentials ''ios'' iosMetadata0,
         Log Warn ''Removed existing credentials'', EnsureReleaseExists ''ios'', Build ''ios''],
        Inr ())"
  by code_simp

section \<open>Claims about the Android clear flow and the copy of replies\<close>

lemma storeAfter_no_mutation:
  "filter isMutation evs = [] \<Longrightarrow> storeAfter st evs = st"
  unfolding storeAfter_def
proof (induction evs arbitrary: st)
  case Nil
  then show ?case by simp
next
  case (Cons ev evs)
  then show ?case by (cases ev) (simp_all split: if_splits)
qed

lemma clearCredentials_mutations:
  "filter isMutation (fst (AndroidBuilder_clearCredentials w)) =
      (if truthy (answer w ''_clearCredentials'' ''confirm'')
       then [RemoveCredentials ''android'' (androidMetadata w)] else [])"
  by (simp add: AndroidBuilder_clearCredentials_def ask_def act_defs obj_get_def)

lemma declined_clears_change_nothing:
  assumes "\<forall>w \<in> set ws. \<not> truthy (answer w ''_clearCredentials'' ''confirm'')"
  shows "storeAfter st (concat (map (\<lambda>w. fst (AndroidBuilder_clearCredentials w)) ws)) = st"
proof -
  have "filter isMutation (concat (map (\<lambda>w. fst (AndroidBuilder_clearCredentials w)) ws)) = []"
    using assms by (induction ws) (simp_all add: clearCredentials_mutations)
  then show ?thesis by (rule storeAfter_no_mutation)
qed

text \<open>
  C5. The standalone clear flow of the Android builder issues the remove call exactly when
  the operator's answer to the confirmation is affirmative, and it returns normally either
  way. Declined runs change nothing: after any number of them the stored bundles are what
  they were.
\<close>

theorem clear_credentials_needs_confirmation:
  "filter isMutation (fst (AndroidBuilder_clearCredentials w)) =
      (if truthy (answer w ''_clearCredentials'' ''confirm'')
       then [RemoveCredentials ''android'' (androidMetadata w)] else [])
   \<and> snd (AndroidBuilder_clearCredentials w) = Inr ()
   \<and> ((\<forall>w' \<in> set ws. \<not> truthy (answer w' ''_clearCredentials'' ''confirm'')) \<longrightarrow>
        storeAfter st (concat (map (\<lambda>w'. fst (AndroidBuilder_clearCredentials w')) ws)) = st)"
proof -
  have "snd (AndroidBuilder_clearCredentials w) = Inr ()"
    by (simp add: AndroidBuilder_clearCredentials_def ask_def act_defs obj_get_def)
  then show ?thesis
    using clearCredentials_mutations[of w] declined_clears_change_nothing[of ws st] by simp
qed

theorem clear_credentials_needs_confirmation_witness:
  "\<not> truthy (answer wDecline ''_clearCredentials'' ''confirm'')
   \<and> store0 (androidMetadata w0) = Some [(''keystore'', JStr ''SktT'')]
   \<and> storeAfter store0
        (concat (map (\<lambda>w'. fst (AndroidBuilder_clearCredentials w')) [wDecline, wDecline]))
      = store0"
proof -
  have declined: "\<not> truthy (answer wDecline ''_clearCredentials'' ''confirm'')"
    by (simp add: wDecline_def)
  have kept: "store0 (androidMetadata w0) = Some [(''keystore'', JStr ''SktT'')]"
    by (simp add: store0_def)
  show ?thesis
    using clear_credentials_needs_confirmation[of wDecline "[wDecline, wDecline]" store0]
          declined kept
    by simp
qed

lemma obj_get_set: "obj_get (obj_set ob k v) k' = (if k' = k then v else obj_get ob k')"
  by (induction ob) (auto simp: obj_get_def)

lemma copyOverAsString_get:
  "obj_get (copyOverAsString credsStarter authActionAttempt) k =
     (if k \<in> set (obj_keys authActionAttempt)
      then (if isString (obj_get authActionAttempt k) then obj_get authActionAttempt k
            else JSON_stringify (obj_get authActionAttempt k))
      else obj_get credsStarter k)"
proof -
  have "obj_get (foldl (\<lambda>c k. if isString (obj_get a k) then obj_set c k (obj_get a k)
                               else obj_set c k (JSON_stringify (obj_get a k))) c ks) k =
          (if k \<in> set ks
           then (if isString (obj_get a k) then obj_get a k else JSON_stringify (obj_get a k))
           else obj_get c k)" for a c ks
    by (induction ks arbitrary: c) (auto simp: obj_get_set)
  then show ?thesis by (simp add: copyOverAsString_def)
qed

lemma copied_value_is_string_unless_undefined:
  assumes "k \<in> set (obj_keys authActionAttempt)"
  shows "isString (obj_get (copyOverAsString credsStarter authActionAttempt) k)
           = (obj_get authActionAttempt k \<noteq> JUndefined)"
  using assms by (cases "obj_get authActionAttempt k") (simp_all add: copyOverAsString_get)

text \<open>
  C10 fails on the code for a value that is \<open>undefined\<close>, as an unset environment variable
  is in \<open>runningAsCI\<close>: \<open>JSON.stringify(undefined)\<close> is \<open>undefined\<close>, so the bundle gets a
  key whose value is not a string.
\<close>

theorem copyOverAsString_keeps_undefined:
  "copyOverAsString [] [(''teamId'', JUndefined)] = [(''teamId'', JUndefined)]
   \<and> \<not> isString (obj_get (copyOverAsString [] [(''teamId'', JUndefined)]) ''teamId'')
   \<and> credsMissing (copyOverAsString [(''certP12'', JStr ''Q0VSVA==''), (''certPassword'', JStr ''pw1''),
                      (''pushP12'', JStr ''UFVTSA==''), (''pushPassword'', JStr ''pw2''),
                      (''provisioningProfile'', JStr ''UFJPRg=='')]
                     [(''teamId'', JUndefined)]) = []"
  by code_simp

section \<open>Where the environment is read\<close>

lemmas question_defs =
  question_def ask_def whenNotInEnvironment_def whenKeystoreField_def whenPathToP12_def
  whenCertPassword_def validateCertificatePath_def validateCredentialsForPlatform_def
  updateCredentialsForPlatform_def obj_get_def obj_delete_def obj_assign_def env_get_def act_defs
  Let_def











lemma legacy_cached_ignores_environment:
  assumes "\<not> clearCredentials (opts w)" and "stored w = Some found"
      and "truthy (obj_get found ''appleId'')" "truthy (obj_get found ''certP12'')"
          "truthy (obj_get found ''pushP12'')"
  shows "collectAndValidateCredentials (w\<lparr>env := e\<rparr>) = collectAndValidateCredentials w"
    and "filter (\<lambda>ev. isPrompt ev \<or> isUpsert ev) (fst (collectAndValidateCredentials w)) = []"
  using assms
  by (simp_all add: collectAndValidateCredentials_def validateCredentialsForPlatform_def
        iosMetadata_def Let_def act_defs)




section \<open>The slots of the per-field iOS builder\<close>






lemma stored_slot_is_validated:
  assumes "hasSlot w key"
  shows "(if \<not> hasSlot w key then collect
          else bnd (emit (Log Info l)) (\<lambda>_. validateCredentialsForPlatform w kind None md)) =
         ([Log Info l, ValidateCredentials ''ios'' kind None md],
          if validate_ok w kind then Inr ()
          else Inl (ServiceRejected ''validateCredentialsForPlatform''))"
  using assms by (simp add: validateCredentialsForPlatform_def act_defs)





section \<open>When the operator is asked for a strategy\<close>

lemma android_strategy_question:
  assumes "clearCredentials (opts w) \<or> stored w = None"
      and "unsetOrEmpty w ''EXP_ANDROID_KEYSTORE_PATH''"
      and "unsetOrEmpty w ''EXP_ANDROID_KEYSTORE_ALIAS''"
      and "unsetOrEmpty w ''EXP_ANDROID_STORE_PASSWORD''"
      and "unsetOrEmpty w ''EXP_ANDROID_KEY_PASSWORD''"
  shows "take 3 (fst (AndroidBuilder_collectAndValidateCredentials w)) =
           [GetPublishInfo, CredentialsExist (androidMetadata w), Prompt ''uploadKeystore'']"
  using assms
  by (auto simp add: AndroidBuilder_collectAndValidateCredentials_def unsetOrEmpty_def
        question_def ask_def obj_get_def env_get_def act_defs Let_def)

lemma askForCerts_strategy_question:
  assumes "unsetOrEmpty w ''EXP_DIST_CERTIFICATE_PATH''"
      and "unsetOrEmpty w ''EXP_DIST_CERTIFICATE_PASSWORD''"
  shows "take 1 (fst (askForCerts w md)) = [Prompt ''manageCertificates'']"
  using assms
  by (auto simp add: askForCerts_def unsetOrEmpty_def
        question_def ask_def obj_get_def env_get_def act_defs Let_def)

lemma runLocalAuth_strategy_question:
  assumes "\<not> useCi (opts w)" and "\<not> foundComplete w"
  shows "take 1 (filter isPrompt (fst (runLocalAuth w md))) = [Prompt ''isExpoManaged'']"
proof -
  have "filter isPrompt (lookupEvents w md) = []"
    by (simp add: lookupEvents_def areCredsMissing_def act_defs split: option.splits)
  then show ?thesis
    using assms
    by (simp add: runLocalAuth_parts afterLookup_def interactiveResolution_def fst_bnd act_defs)
qed

lemma runningAsExpoManaged_choices:
  "take 2 (fst (runningAsExpoManaged w c)) = [Prompt ''distCert'', Prompt ''pushCert'']"
  by (simp add: runningAsExpoManaged_steps act_defs)

lemma askForAppleId_value_questions:
  assumes "unsetOrEmpty w ''EXP_APPLE_ID''"
      and "unsetOrEmpty w ''EXP_APPLE_PASSWORD''"
      and "unsetOrEmpty w ''EXP_APPLE_TEAM_ID''"
  shows "filter isPrompt (fst (askForAppleId w md)) =
           [Prompt ''appleId'', Prompt ''password'', Prompt ''teamId'']"
  using assms
  by (auto simp add: askForAppleId_def unsetOrEmpty_def question_defs)

section \<open>The strategy question of the push certificate\<close>

lemma other_when_path:
  "list_all (\<lambda>ev. ev \<noteq> Prompt ''managePushCertificates'') (fst (whenPathToP12 w var answers e))"
  by (simp add: whenPathToP12_def validateCertificatePath_def list_all_bnd act_defs
        split: jsval.splits option.splits)

lemma other_when_password:
  "list_all (\<lambda>ev. ev \<noteq> Prompt ''managePushCertificates'') (fst (whenCertPassword var answers e))"
  by (simp add: whenCertPassword_def list_all_bnd act_defs)

lemma other_question:
  assumes "list_all (\<lambda>ev. ev \<noteq> Prompt ''managePushCertificates'') (fst when)"
      and "name \<noteq> ''managePushCertificates''"
  shows "list_all (\<lambda>ev. ev \<noteq> Prompt ''managePushCertificates'')
           (fst (question w method name when answers))"
  using assms
  by (auto simp add: question_def ask_def list_all_bnd act_defs)

lemma other_readFile:
  "list_all (\<lambda>ev. ev \<noteq> Prompt ''managePushCertificates'') (fst (readFileBase64 fs p))"
  by (simp add: readFileBase64_def act_defs split: jsval.splits option.splits)

lemma other_validate:
  "list_all (\<lambda>ev. ev \<noteq> Prompt ''managePushCertificates'')
     (fst (validateCredentialsForPlatform w kind c md))"
  by (simp add: validateCredentialsForPlatform_def act_defs)

lemma other_update:
  "list_all (\<lambda>ev. ev \<noteq> Prompt ''managePushCertificates'')
     (fst (updateCredentialsForPlatform w platform c md))"
  by (simp add: updateCredentialsForPlatform_def act_defs)

lemma push_strategy_question_skipped:
  "question w ''askForPushCerts'' ''managePushCertificates''
     (if \<not> truthy (obj_get
                      (if c then obj_set
                                  [(''pathToP12'', p), (''certPassword'', q),
                                   (''managePushCertificates'', JBool True)]
                                  ''managePushCertificates'' (JBool False)
                       else [(''pathToP12'', p), (''certPassword'', q),
                             (''managePushCertificates'', JBool True)])
                      ''manageCertificates'')
      then bnd (emit (Log Info l)) (\<lambda>_. ret (False, e1))
      else ret (True, e2)) [] = ([Log Info l], Inr ([], e1))"
  by (simp add: question_def obj_get_def act_defs)

lemma askForPushCerts_never_asks_strategy:
  "Prompt ''managePushCertificates'' \<notin> set (fst (askForPushCerts w md))"
proof -
  have "list_all (\<lambda>ev. ev \<noteq> Prompt ''managePushCertificates'') (fst (askForPushCerts w md))"
    unfolding askForPushCerts_def Let_def push_strategy_question_skipped
    by (simp add: list_all_bnd other_question other_when_path other_when_password other_readFile
          other_validate other_update emit_def)
  then show ?thesis by (auto simp add: list_all_iff)
qed

section \<open>Claims about overrides and strategy questions\<close>




text \<open>
  C8 fails on the code for the slot it singles out, the push certificate of the per-field
  iOS builder. The \<open>when\<close> predicate of the strategy question \<open>managePushCertificates\<close>
  tests the key \<open>manageCertificates\<close>, which \<open>askForPushCerts\<close> never sets (it sets
  \<open>managePushCertificates\<close>; the sibling \<open>askForCerts\<close> sets and tests the same key). With
  neither push variable set and nothing stored, the question is not put: the builder logs
  that the environment is set, asks for a path and a password, discards both and has the
  service fetch a push certificate. The sibling, in the same world, opens with its strategy
  question.
\<close>

theorem push_strategy_question_is_never_put:
  "env wTyping ''EXP_PUSH_CERTIFICATE_PATH'' = None
   \<and> env wTyping ''EXP_PUSH_CERTIFICATE_PASSWORD'' = None
   \<and> stored wTyping = None
   \<and> \<not> hasSlot wTyping ''pushP12''
   \<and> pushStep wTyping = askForPushCerts wTyping iosMetadata0
   \<and> askForPushCerts wTyping iosMetadata0 =
       ([Log Info (notAskingToManage ''EXP_PUSH_CERTIFICATE_PATH'' ''EXP_PUSH_CERTIFICATE_PASSWORD''),
         Prompt ''pathToP12'', Prompt ''certPassword'',
         Log Info ''Fetching a new push certificate...'',
         FetchPushCertificates iosMetadata0,
         Log Info ''Push certificate setup complete.''],
        Inr ())
   \<and> filter isPrompt (fst (collectAndValidateCredentials wTyping)) =
       [Prompt ''appleId'', Prompt ''password'', Prompt ''teamId'', Prompt ''manageCertificates'',
        Prompt ''pathToP12'', Prompt ''certPassword'']
   \<and> askForCerts wTyping iosMetadata0 =
       ([Prompt ''manageCertificates'',
         Log Info ''Generating distribution certificate...'',
         FetchAppleCertificates iosMetadata0,
         Log Info ''Distribution certificate setup complete.''],
        Inr ())"
  by code_simp

text \<open>
  The Apple ID slot of the per-field builder has no strategy question by design: with no
  Apple ID variable set and nothing stored it is resolved by its three value questions.
\<close>

lemma askForAppleId_has_no_strategy_question:
  "env wTyping ''EXP_APPLE_ID'' = None \<and> env wTyping ''EXP_APPLE_PASSWORD'' = None
   \<and> env wTyping ''EXP_APPLE_TEAM_ID'' = None \<and> stored wTyping = None
   \<and> askForAppleId wTyping iosMetadata0 =
       ([ConsoleLog (JStr ''We need your Apple ID/password to manage certificates and provisioning profiles from your Apple Developer account.''),
         Prompt ''appleId'', Prompt ''password'', Prompt ''teamId'',
         Log Info ''Validating Apple credentials...'',
         ValidateCredentials ''ios'' ''appleId''
           (Some [(''appleId'', JStr ''typed''), (''password'', JStr ''typed''),
                  (''teamId'', JStr ''typed'')]) iosMetadata0,
         UpdateCredentials ''ios''
           [(''appleId'', JStr ''typed''), (''password'', JStr ''typed''),
            (''teamId'', JStr ''typed'')] iosMetadata0],
        Inr ())"
  by code_simp

end
